theory Spec2Isabelle
  imports Main
begin

section \<open>Strings\<close>

text \<open>
  A JavaScript string is modelled as a \<^typ>\<open>string\<close>, one \<^typ>\<open>char\<close> per code unit, so
  \<open>length\<close> is the source's \<open>.length\<close>. Only code units below 256 exist in the model
  (Basic Latin and Latin-1 Supplement). On these, \<open>toLowerCase\<close> replaces the capital
  letters \<open>A\<close> to \<open>Z\<close>, \<open>U+00C0\<close> to \<open>U+00D6\<close> and \<open>U+00D8\<close> to \<open>U+00DE\<close> by the
  unit 32 above and leaves every other unit as it is, and white space is the part of
  the ECMAScript white space and line terminator set that lies below 256.
\<close>

definition isWhiteSpace :: "char \<Rightarrow> bool" where
  "isWhiteSpace c = (of_char c \<in> {9, 10, 11, 12, 13, 32, 160 :: nat})"

text \<open>\<open>String.prototype.trim\<close>: white space is removed from both ends.\<close>

definition trim :: "string \<Rightarrow> string" where
  "trim s = rev (dropWhile isWhiteSpace (rev (dropWhile isWhiteSpace s)))"

definition toLowerCaseChar :: "char \<Rightarrow> char" where
  "toLowerCaseChar c =
     (case map_of
             (zip (''ABCDEFGHIJKLMNOPQRSTUVWXYZ'' @
              [CHR 0xC0, CHR 0xC1, CHR 0xC2, CHR 0xC3, CHR 0xC4, CHR 0xC5, CHR 0xC6, CHR 0xC7, CHR 0xC8, CHR 0xC9, CHR 0xCA, CHR 0xCB,
               CHR 0xCC, CHR 0xCD, CHR 0xCE, CHR 0xCF, CHR 0xD0, CHR 0xD1, CHR 0xD2, CHR 0xD3, CHR 0xD4, CHR 0xD5, CHR 0xD6,
               CHR 0xD8, CHR 0xD9, CHR 0xDA, CHR 0xDB, CHR 0xDC, CHR 0xDD, CHR 0xDE])
                  (''abcdefghijklmnopqrstuvwxyz'' @
              [CHR 0xE0, CHR 0xE1, CHR 0xE2, CHR 0xE3, CHR 0xE4, CHR 0xE5, CHR 0xE6, CHR 0xE7, CHR 0xE8, CHR 0xE9, CHR 0xEA, CHR 0xEB,
               CHR 0xEC, CHR 0xED, CHR 0xEE, CHR 0xEF, CHR 0xF0, CHR 0xF1, CHR 0xF2, CHR 0xF3, CHR 0xF4, CHR 0xF5, CHR 0xF6,
               CHR 0xF8, CHR 0xF9, CHR 0xFA, CHR 0xFB, CHR 0xFC, CHR 0xFD, CHR 0xFE])) c of
        Some l \<Rightarrow> l
      | None \<Rightarrow> c)"

text \<open>\<open>String.prototype.toLowerCase\<close>, unit by unit.\<close>

definition toLowerCase :: "string \<Rightarrow> string" where
  "toLowerCase s = map toLowerCaseChar s"

fun startsWith :: "string \<Rightarrow> string \<Rightarrow> bool" where
  "startsWith s [] = True"
| "startsWith [] (p # ps) = False"
| "startsWith (c # cs) (p # ps) = (c = p \<and> startsWith cs ps)"

text \<open>\<open>String.prototype.includes\<close>: the pattern occurs somewhere in the string.\<close>

fun includesStr :: "string \<Rightarrow> string \<Rightarrow> bool" where
  "includesStr [] p = (p = [])"
| "includesStr (c # cs) p = (startsWith (c # cs) p \<or> includesStr cs p)"

text \<open>The decimal digits of a count, as a template literal prints it.\<close>

fun digitsOf :: "nat \<Rightarrow> string" where
  "digitsOf n =
     (if n < 10 then [''0123456789'' ! n]
      else digitsOf (n div 10) @ [''0123456789'' ! (n mod 10)])"

declare digitsOf.simps [simp del]

text \<open>\<open>Array.prototype.join\<close> on an array of strings.\<close>

fun join :: "string list \<Rightarrow> string \<Rightarrow> string" where
  "join [] sep = []"
| "join [x] sep = x"
| "join (x # y # ys) sep = x @ sep @ join (y # ys) sep"

section \<open>Numbers\<close>

text \<open>
  A JavaScript number is an IEEE 754 double. The numbers of the model are integers; an
  integer up to \<open>2 ^ 53\<close> in magnitude is a double, a larger one is rounded to the
  nearest integer with a significand of 53 bits, to the even significand in a tie.
  (The sum of a time value and a finite double stays below the largest double, so the
  rounding never gives \<open>Infinity\<close>.) \<open>bitLength n\<close> is the number of binary digits
  of \<open>n\<close>.
\<close>

function bitLength :: "int \<Rightarrow> nat" where
  "bitLength n = (if n \<le> 0 then 0 else Suc (bitLength (n div 2)))"
  by pat_completeness auto
termination
  by (relation "measure nat") auto

declare bitLength.simps [simp del]

definition roundToDouble :: "int \<Rightarrow> int" where
  "roundToDouble x =
     (let q = 2 ^ (bitLength \<bar>x\<bar> - 53);
          n = x div q;
          r = x mod q
      in if 2 * r < q then n * q
         else if q < 2 * r then (n + 1) * q
         else if even n then n * q else (n + 1) * q)"

text \<open>The sum of two numbers that are integers: the exact sum, rounded.\<close>

definition numberAdd :: "int \<Rightarrow> int \<Rightarrow> int" where
  "numberAdd a b = roundToDouble (a + b)"

section \<open>Dates\<close>

text \<open>
  A \<open>Date\<close> object holds a time value: an integral number of milliseconds since the
  epoch, or \<open>NaN\<close> (an invalid date), which is \<open>None\<close> here. The functions below are
  the abstract operations of ECMA-262 (section "Date Objects") that
  \<open>getFullYear\<close> and \<open>setFullYear\<close> are defined by. The local time zone is the
  function \<open>LocalTZA\<close> of ECMA-262: \<open>localTZA t True\<close> is the offset of local time from UTC,
  in milliseconds, at the UTC time value \<open>t\<close>, and \<open>localTZA t False\<close> the offset at the
  local time value \<open>t\<close>; with daylight saving it changes with \<open>t\<close>.
\<close>

type_synonym date = "int option"

definition msPerDay :: int where
  "msPerDay = 86400000"

definition Day :: "int \<Rightarrow> int" where
  "Day t = t div msPerDay"

definition TimeWithinDay :: "int \<Rightarrow> int" where
  "TimeWithinDay t = t mod msPerDay"

definition DayFromYear :: "int \<Rightarrow> int" where
  "DayFromYear y =
     365 * (y - 1970) + (y - 1969) div 4 - (y - 1901) div 100 + (y - 1601) div 400"

definition DaysInYear :: "int \<Rightarrow> int" where
  "DaysInYear y =
     (if y mod 4 \<noteq> 0 then 365 else if y mod 100 \<noteq> 0 then 366
      else if y mod 400 \<noteq> 0 then 365 else 366)"

text \<open>
  \<open>YearFromTime t\<close> is the largest \<open>y\<close> with \<open>DayFromYear y \<le> Day t\<close>. It is computed
  from an estimate by the mean length of a year, corrected by one year either way.
\<close>

definition YearFromTime :: "int \<Rightarrow> int" where
  "YearFromTime t =
     (let d = Day t; y = 1970 + (d * 400) div 146097
      in if d < DayFromYear y then y - 1
         else if DayFromYear (y + 1) \<le> d then y + 1 else y)"

definition InLeapYear :: "int \<Rightarrow> int" where
  "InLeapYear t = (if DaysInYear (YearFromTime t) = 366 then 1 else 0)"

definition DayWithinYear :: "int \<Rightarrow> int" where
  "DayWithinYear t = Day t - DayFromYear (YearFromTime t)"

text \<open>The day within the year on which month \<open>m\<close> (0 to 11) starts.\<close>

definition monthStart :: "int \<Rightarrow> int \<Rightarrow> int" where
  "monthStart m leap =
     (if m = 0 then 0 else if m = 1 then 31 else if m = 2 then 59 + leap
      else if m = 3 then 90 + leap else if m = 4 then 120 + leap
      else if m = 5 then 151 + leap else if m = 6 then 181 + leap
      else if m = 7 then 212 + leap else if m = 8 then 243 + leap
      else if m = 9 then 273 + leap else if m = 10 then 304 + leap
      else 334 + leap)"

definition MonthFromTime :: "int \<Rightarrow> int" where
  "MonthFromTime t =
     (let d = DayWithinYear t; leap = InLeapYear t
      in if d < 31 then 0 else if d < 59 + leap then 1 else if d < 90 + leap then 2
         else if d < 120 + leap then 3 else if d < 151 + leap then 4
         else if d < 181 + leap then 5 else if d < 212 + leap then 6
         else if d < 243 + leap then 7 else if d < 273 + leap then 8
         else if d < 304 + leap then 9 else if d < 334 + leap then 10 else 11)"

definition DateFromTime :: "int \<Rightarrow> int" where
  "DateFromTime t = DayWithinYear t - monthStart (MonthFromTime t) (InLeapYear t) + 1"

text \<open>\<open>MakeDay\<close>, for a month in 0 to 11 as \<open>MonthFromTime\<close> gives it.\<close>

definition MakeDay :: "int \<Rightarrow> int \<Rightarrow> int \<Rightarrow> int" where
  "MakeDay year month dt =
     (let ym = year + month div 12; mn = month mod 12
      in DayFromYear ym + monthStart mn (if DaysInYear ym = 366 then 1 else 0) + dt - 1)"

definition MakeDate :: "int \<Rightarrow> int \<Rightarrow> int" where
  "MakeDate day time = day * msPerDay + time"

definition TimeClip :: "int \<Rightarrow> date" where
  "TimeClip t = (if \<bar>t\<bar> > 8640000000000000 then None else Some t)"

type_synonym timeZone = "int \<Rightarrow> bool \<Rightarrow> int"

definition LocalTime :: "timeZone \<Rightarrow> int \<Rightarrow> int" where
  "LocalTime localTZA t = t + localTZA t True"

definition UTC :: "timeZone \<Rightarrow> int \<Rightarrow> int" where
  "UTC localTZA t = t - localTZA t False"

text \<open>The offsets of a time zone are at most a day in magnitude.\<close>

definition offsetsBounded :: "timeZone \<Rightarrow> bool" where
  "offsetsBounded localTZA = (\<forall>t isUTC. \<bar>localTZA t isUTC\<bar> \<le> msPerDay)"

text \<open>\<open>Date.prototype.getFullYear\<close>; \<open>None\<close> is \<open>NaN\<close>.\<close>

definition getFullYear :: "timeZone \<Rightarrow> date \<Rightarrow> int option" where
  "getFullYear localTZA d = map_option (\<lambda>t. YearFromTime (LocalTime localTZA t)) d"

text \<open>\<open>Date.prototype.setFullYear\<close> with one argument; a \<open>NaN\<close> year gives \<open>NaN\<close>.\<close>

definition setFullYear :: "timeZone \<Rightarrow> date \<Rightarrow> int option \<Rightarrow> date" where
  "setFullYear localTZA d year =
     (case year of
        None \<Rightarrow> None
      | Some y \<Rightarrow>
          (let t = (case d of None \<Rightarrow> 0 | Some tv \<Rightarrow> LocalTime localTZA tv);
               newDate = MakeDay y (MonthFromTime t) (DateFromTime t);
               u = UTC localTZA (MakeDate newDate (TimeWithinDay t))
           in TimeClip u))"

section \<open>Errors and the logger\<close>

text \<open>
  The classes of \<open>errors/BaseError.ts\<close>, each with its message; \<open>JsError\<close> is a plain
  \<open>Error\<close>, which the transaction manager throws.
\<close>

datatype error =
    NotFoundError string
  | UnauthorizedError string
  | ForbiddenError string
  | ValidationError string
  | JsError string

text \<open>
  What \<open>Logger\<close> writes to the console: the level and the message of each call, in
  order (the time stamp that \<open>formatMessage\<close> puts in front is left out), and the error
  object that \<open>Logger.error\<close> prints after its message when it is given one.
\<close>

datatype log_entry = INFO string | DEBUG string | ERROR string | ERROR_OBJECT error

section \<open>Data\<close>

datatype Role = USER | ADMIN

record User =
  user_id :: string
  email :: string
  password :: string
  role :: Role

text \<open>
  \<open>priority\<close> and \<open>status\<close> are strings, as at run time: the service checks them
  against the allowed values itself. An optional field is an \<open>option\<close>.
\<close>

record Task =
  task_id :: string
  title :: string
  description :: "string option"
  status :: string
  deadline :: "date option"
  priority :: string
  ownerId :: string
  createdAt :: int

record CreateTaskDTO =
  new_title :: string
  new_description :: "string option"
  new_deadline :: "date option"
  new_priority :: "string option"
  new_ownerId :: string

record UpdateTaskDTO =
  upd_title :: "string option"
  upd_description :: "string option"
  upd_status :: "string option"
  upd_deadline :: "date option"
  upd_priority :: "string option"

text \<open>An entry of the cache: \<open>{ data, expiry }\<close>.\<close>

record 'v cacheEntry =
  data :: 'v
  expiry :: int

text \<open>A queued operation of the transaction manager is a closure that nothing ever calls.\<close>

type_synonym operation = nat

text \<open>
  The objects the task service is built from, as one state: the array of
  \<open>TaskRepository\<close>, the array of \<open>UserRepository\<close>, the map of \<open>CacheService\<close> (the
  operations modelled here store tasks in it), the two fields of \<open>TransactionManager\<close>,
  and the console.
\<close>

record state =
  tasks :: "Task list"
  users :: "User list"
  cache :: "string \<rightharpoonup> Task cacheEntry"
  isActive :: bool
  operations :: "operation list"
  console :: "log_entry list"

text \<open>
  What a call reads from outside: the clock at each \<open>new Date()\<close> of \<open>create\<close> and
  \<open>update\<close> (the one compared with the deadline, the one the five years are added to,
  the one stored as \<open>createdAt\<close>), the local time zone, and the result of
  \<open>crypto.randomUUID()\<close>.
\<close>

record environment =
  localTZA :: timeZone
  clockDeadline :: int
  clockFiveYears :: int
  clockCreatedAt :: int
  randomUUID :: string

section \<open>Logger\<close>

definition Logger_info :: "string \<Rightarrow> state \<Rightarrow> state" where
  "Logger_info message s = s\<lparr>console := console s @ [INFO message]\<rparr>"

definition Logger_debug :: "string \<Rightarrow> state \<Rightarrow> state" where
  "Logger_debug message s = s\<lparr>console := console s @ [DEBUG message]\<rparr>"

definition Logger_error :: "string \<Rightarrow> error option \<Rightarrow> state \<Rightarrow> state" where
  "Logger_error message err s =
     s\<lparr>console := console s @ ERROR message #
        (case err of None \<Rightarrow> [] | Some e \<Rightarrow> [ERROR_OBJECT e])\<rparr>"

section \<open>TransactionManager\<close>

definition TransactionManager_begin :: "state \<Rightarrow> state" where
  "TransactionManager_begin s = s\<lparr>isActive := True, operations := []\<rparr>"

definition TransactionManager_commit :: "state \<Rightarrow> (error + unit) \<times> state" where
  "TransactionManager_commit s =
     (if \<not> isActive s then (Inl (JsError ''No active transaction to commit''), s)
      else (Inr (), s\<lparr>isActive := False, operations := []\<rparr>))"

definition TransactionManager_rollback :: "state \<Rightarrow> (error + unit) \<times> state" where
  "TransactionManager_rollback s =
     (if \<not> isActive s then (Inl (JsError ''No active transaction to rollback''), s)
      else (Inr (), (Logger_error ''Rolling back transaction'' None s)
                      \<lparr>isActive := False, operations := []\<rparr>))"

definition TransactionManager_addOperation ::
  "operation \<Rightarrow> state \<Rightarrow> (error + unit) \<times> state" where
  "TransactionManager_addOperation operation s =
     (if \<not> isActive s then (Inl (JsError ''No active transaction''), s)
      else (Inr (), s\<lparr>operations := operations s @ [operation]\<rparr>))"

section \<open>CacheService\<close>

definition defaultTTL :: int where
  "defaultTTL = 60000"

text \<open>
  \<open>now\<close> is the value of \<open>Date.now()\<close>, a time value: an integer of at most
  \<open>8.64e15\<close> in magnitude. A \<open>ttl\<close> that is not given is the default, and the sum
  with it is below \<open>2 ^ 53\<close>, so exact. A \<open>ttl\<close> that the caller gives is an integer
  that is a double, and \<open>Date.now() + ttl\<close> is the sum of two doubles.
\<close>

definition CacheService_set ::
  "int \<Rightarrow> string \<Rightarrow> Task \<Rightarrow> int option \<Rightarrow> state \<Rightarrow> state" where
  "CacheService_set now key v ttl s =
     (let s1 = Logger_debug (''Caching data with key: '' @ key) s;
          expiry = (case ttl of None \<Rightarrow> now + defaultTTL | Some n \<Rightarrow> numberAdd now n)
      in s1\<lparr>cache := (cache s1)(key \<mapsto> \<lparr>data = v, expiry = expiry\<rparr>)\<rparr>)"

text \<open>The result \<open>None\<close> is \<open>null\<close>.\<close>

definition CacheService_get :: "int \<Rightarrow> string \<Rightarrow> state \<Rightarrow> Task option \<times> state" where
  "CacheService_get now key s =
     (let s1 = Logger_debug (''Checking cache for key: '' @ key) s
      in case cache s1 key of
           None \<Rightarrow> (None, Logger_debug (''Cache miss for key: '' @ key) s1)
         | Some cached \<Rightarrow>
             if now > expiry cached
             then (let s2 = Logger_debug (''Cache expired for key: '' @ key) s1
                   in (None, s2\<lparr>cache := (cache s2)(key := None)\<rparr>))
             else (Some (data cached), Logger_debug (''Cache hit for key: '' @ key) s1))"

definition CacheService_invalidate :: "string \<Rightarrow> state \<Rightarrow> state" where
  "CacheService_invalidate key s =
     (let s1 = Logger_debug (''Invalidating cache for key: '' @ key) s
      in s1\<lparr>cache := (cache s1)(key := None)\<rparr>)"

definition CacheService_clear :: "state \<Rightarrow> state" where
  "CacheService_clear s = (Logger_info ''Clearing all cache'' s)\<lparr>cache := Map.empty\<rparr>"

section \<open>UserRepository\<close>

definition UserRepository_findById :: "string \<Rightarrow> state \<Rightarrow> User option \<times> state" where
  "UserRepository_findById ident s =
     (find (\<lambda>u. user_id u = ident) (users s), Logger_info ''Finding user by id'' s)"

definition UserRepository_save :: "User \<Rightarrow> state \<Rightarrow> User \<times> state" where
  "UserRepository_save user s =
     (let s1 = Logger_info ''Saving user to database'' s
      in (user, s1\<lparr>users := users s1 @ [user]\<rparr>))"

section \<open>TaskRepository\<close>

definition TaskRepository_save :: "Task \<Rightarrow> state \<Rightarrow> Task \<times> state" where
  "TaskRepository_save task s =
     (let s1 = Logger_info ''Saving task to database'' s
      in (task, s1\<lparr>tasks := tasks s1 @ [task]\<rparr>))"

definition TaskRepository_delete :: "string \<Rightarrow> state \<Rightarrow> state" where
  "TaskRepository_delete ident s =
     (let s1 = Logger_info ''Deleting task from database'' s
      in s1\<lparr>tasks := filter (\<lambda>t. task_id t \<noteq> ident) (tasks s1)\<rparr>)"

definition TaskRepository_findById :: "string \<Rightarrow> state \<Rightarrow> Task option \<times> state" where
  "TaskRepository_findById ident s =
     (let s1 = Logger_info ''Finding task by id'' s
      in (find (\<lambda>t. task_id t = ident) (tasks s1), s1))"

text \<open>\<open>Array.prototype.findIndex\<close>; \<open>None\<close> is \<open>-1\<close>.\<close>

fun findIndex :: "('a \<Rightarrow> bool) \<Rightarrow> 'a list \<Rightarrow> nat option" where
  "findIndex P [] = None"
| "findIndex P (x # xs) = (if P x then Some 0 else map_option Suc (findIndex P xs))"

text \<open>
  The object spread \<open>{ ...task, ...updates }\<close>: a field that \<open>updates\<close> has replaces
  the task's.
\<close>

definition spread :: "Task \<Rightarrow> UpdateTaskDTO \<Rightarrow> Task" where
  "spread t updates =
     t\<lparr>title := (case upd_title updates of None \<Rightarrow> title t | Some x \<Rightarrow> x),
       description := (case upd_description updates of None \<Rightarrow> description t | Some x \<Rightarrow> Some x),
       status := (case upd_status updates of None \<Rightarrow> status t | Some x \<Rightarrow> x),
       deadline := (case upd_deadline updates of None \<Rightarrow> deadline t | Some x \<Rightarrow> Some x),
       priority := (case upd_priority updates of None \<Rightarrow> priority t | Some x \<Rightarrow> x)\<rparr>"

definition TaskRepository_update ::
  "string \<Rightarrow> UpdateTaskDTO \<Rightarrow> state \<Rightarrow> Task option \<times> state" where
  "TaskRepository_update ident updates s =
     (let s1 = Logger_info ''Updating task in database'' s
      in case findIndex (\<lambda>t. task_id t = ident) (tasks s1) of
           None \<Rightarrow> (None, s1)
         | Some index \<Rightarrow>
             (let s2 = s1\<lparr>tasks := (tasks s1)[index := spread (tasks s1 ! index) updates]\<rparr>
              in (Some (tasks s2 ! index), s2)))"

text \<open>\<open>excludeId\<close> excludes nothing when it is not given or is the empty string.\<close>

definition TaskRepository_findByOwnerAndTitlePattern ::
  "string \<Rightarrow> string \<Rightarrow> string option \<Rightarrow> state \<Rightarrow> Task list \<times> state" where
  "TaskRepository_findByOwnerAndTitlePattern owner titlePattern excludeId s =
     (let s1 = Logger_info ''Finding tasks by owner and title pattern'' s
      in (filter (\<lambda>t. ownerId t = owner \<and>
                      includesStr (toLowerCase (title t)) (toLowerCase titlePattern) \<and>
                      (case excludeId of None \<Rightarrow> True | Some e \<Rightarrow> e = [] \<or> task_id t \<noteq> e))
            (tasks s1), s1))"

definition TaskRepository_findByOwner :: "string \<Rightarrow> state \<Rightarrow> Task list \<times> state" where
  "TaskRepository_findByOwner owner s =
     (let s1 = Logger_info (''Finding all tasks for owner: '' @ owner) s
      in (filter (\<lambda>t. ownerId t = owner) (tasks s1), s1))"

definition TaskRepository_deleteByOwner :: "string \<Rightarrow> state \<Rightarrow> nat \<times> state" where
  "TaskRepository_deleteByOwner owner s =
     (let s1 = Logger_info (''Deleting all tasks for owner: '' @ owner) s;
          beforeCount = length (tasks s1);
          s2 = s1\<lparr>tasks := filter (\<lambda>t. ownerId t \<noteq> owner) (tasks s1)\<rparr>;
          deletedCount = beforeCount - length (tasks s2);
          s3 = Logger_info (''Deleted '' @ digitsOf deletedCount @ '' tasks for owner: '' @ owner) s2
      in (deletedCount, s3))"

definition TaskRepository_deleteMultiple :: "string list \<Rightarrow> state \<Rightarrow> nat \<times> state" where
  "TaskRepository_deleteMultiple ids s =
     (let s1 = Logger_info (''Deleting multiple tasks: '' @ join ids '', '') s;
          beforeCount = length (tasks s1);
          s2 = s1\<lparr>tasks := filter (\<lambda>t. task_id t \<notin> set ids) (tasks s1)\<rparr>;
          deletedCount = beforeCount - length (tasks s2);
          s3 = Logger_info (''Deleted '' @ digitsOf deletedCount @ '' tasks'') s2
      in (deletedCount, s3))"

section \<open>TaskService\<close>

text \<open>
  The inner \<open>try { ... } catch (error) { rollback(); throw error; }\<close> of the service
  methods: when the body throws, the transaction is rolled back and the error thrown
  again; an error of \<open>rollback\<close> itself replaces it.
\<close>

definition catchRollback ::
  "(state \<Rightarrow> (error + 'a) \<times> state) \<Rightarrow> state \<Rightarrow> (error + 'a) \<times> state" where
  "catchRollback body s =
     (case body s of
        (Inr r, s1) \<Rightarrow> (Inr r, s1)
      | (Inl e, s1) \<Rightarrow>
          (case TransactionManager_rollback s1 of
             (Inl e', s2) \<Rightarrow> (Inl e', s2)
           | (Inr _, s2) \<Rightarrow> (Inl e, s2)))"

text \<open>The outer \<open>try { ... } catch (error) { Logger.error(message, error); throw error; }\<close>.\<close>

definition catchLog ::
  "string \<Rightarrow> (state \<Rightarrow> (error + 'a) \<times> state) \<Rightarrow> state \<Rightarrow> (error + 'a) \<times> state" where
  "catchLog message body s =
     (case body s of
        (Inr r, s1) \<Rightarrow> (Inr r, s1)
      | (Inl e, s1) \<Rightarrow> (Inl e, Logger_error message (Some e) s1))"

text \<open>
  \<open>fiveYearsFromNow\<close>: a new \<open>Date\<close>, its year set to its year plus 5. The result is
  an invalid date when the time value leaves the range of \<open>Date\<close>.
\<close>

definition fiveYearsFromNow :: "environment \<Rightarrow> date" where
  "fiveYearsFromNow env =
     (let created = Some (clockFiveYears env)
      in setFullYear (localTZA env) created
           (map_option (\<lambda>y. y + 5) (getFullYear (localTZA env) created)))"

text \<open>
  The deadline validation, the same statements in \<open>create\<close> and in \<open>update\<close>. A
  \<open>Date\<close> object is truthy, also an invalid one, so the check runs whenever the dto
  has a deadline. A comparison with \<open>NaN\<close> is false.
\<close>

definition validateDeadline :: "environment \<Rightarrow> date option \<Rightarrow> error option" where
  "validateDeadline env dl =
     (case dl of
        None \<Rightarrow> None
      | Some deadlineDate \<Rightarrow>
          (case deadlineDate of
             None \<Rightarrow> Some (ValidationError ''Invalid deadline date format'')
           | Some d \<Rightarrow>
               if d < clockDeadline env
               then Some (ValidationError ''Deadline cannot be in the past'')
               else
                 (case fiveYearsFromNow env of
                    None \<Rightarrow> None
                  | Some f \<Rightarrow>
                      if d > f
                      then Some (ValidationError
                             ''Deadline cannot be more than 5 years in the future'')
                      else None)))"

definition validatePriority :: "string option \<Rightarrow> error option" where
  "validatePriority p =
     (case p of
        None \<Rightarrow> None
      | Some x \<Rightarrow>
          if x \<noteq> [] \<and> x \<notin> set [''LOW'', ''MEDIUM'', ''HIGH'']
          then Some (ValidationError ''Priority must be LOW, MEDIUM, or HIGH'')
          else None)"

text \<open>The validation of \<open>create\<close>, up to \<open>transactionManager.begin()\<close>.\<close>

definition create_validate :: "environment \<Rightarrow> CreateTaskDTO \<Rightarrow> error option" where
  "create_validate env dto =
     (if new_title dto = [] then Some (ValidationError ''Title is required'')
      else if length (trim (new_title dto)) < 3
      then Some (ValidationError ''Title must be at least 3 characters long'')
      else if length (new_title dto) > 100
      then Some (ValidationError ''Title must not exceed 100 characters'')
      else if (case new_description dto of None \<Rightarrow> False | Some d \<Rightarrow> d \<noteq> [] \<and> length d > 500)
      then Some (ValidationError ''Description must not exceed 500 characters'')
      else case validateDeadline env (new_deadline dto) of
             Some e \<Rightarrow> Some e
           | None \<Rightarrow> validatePriority (new_priority dto))"

text \<open>
  The task object that \<open>create\<close> builds: \<open>dto.priority || 'MEDIUM'\<close> is the default
  also for the empty string.
\<close>

definition newTask :: "environment \<Rightarrow> CreateTaskDTO \<Rightarrow> Task" where
  "newTask env dto =
     \<lparr>task_id = randomUUID env,
      title = trim (new_title dto),
      description = map_option trim (new_description dto),
      status = ''TODO'',
      deadline = new_deadline dto,
      priority = (case new_priority dto of
                    None \<Rightarrow> ''MEDIUM''
                  | Some p \<Rightarrow> if p = [] then ''MEDIUM'' else p),
      ownerId = new_ownerId dto,
      createdAt = clockCreatedAt env\<rparr>"

text \<open>The body of the inner \<open>try\<close> of \<open>create\<close>.\<close>

definition create_transaction ::
  "environment \<Rightarrow> CreateTaskDTO \<Rightarrow> state \<Rightarrow> (error + Task) \<times> state" where
  "create_transaction env dto s =
     (case UserRepository_findById (new_ownerId dto) s of
        (None, s1) \<Rightarrow> (Inl (NotFoundError ''Owner not found''), s1)
      | (Some owner, s1) \<Rightarrow>
          (case TaskRepository_findByOwnerAndTitlePattern
                  (new_ownerId dto) (trim (new_title dto)) None s1 of
             (similarTasks, s2) \<Rightarrow>
               if length similarTasks > 0
               then (Inl (ValidationError
                        ''A task with similar title already exists for this user''),
                     Logger_debug (''Found '' @ digitsOf (length similarTasks) @
                                   '' similar task(s) for user'') s2)
               else
                 (let task = newTask env dto
                  in case TaskRepository_save task s2 of
                       (savedTask, s3) \<Rightarrow>
                         (case TransactionManager_commit s3 of
                            (Inl e, s4) \<Rightarrow> (Inl e, s4)
                          | (Inr _, s4) \<Rightarrow>
                              (Inr savedTask,
                               Logger_info (''Task created successfully: '' @ task_id task)
                                 s4)))))"

definition TaskService_create ::
  "environment \<Rightarrow> CreateTaskDTO \<Rightarrow> state \<Rightarrow> (error + Task) \<times> state" where
  "TaskService_create env dto s =
     (let s1 = Logger_info ''Entering create task'' s;
          s2 = Logger_debug (''Creating task with title: '' @ new_title dto) s1
      in catchLog ''Error creating task''
           (\<lambda>st. let s3 = Logger_debug ''Validating task data'' st
                 in case create_validate env dto of
                      Some e \<Rightarrow> (Inl e, s3)
                    | None \<Rightarrow>
                        catchRollback (create_transaction env dto)
                          (TransactionManager_begin s3))
           s2)"

definition TaskService_delete :: "string \<Rightarrow> state \<Rightarrow> (error + unit) \<times> state" where
  "TaskService_delete ident s =
     (let s1 = Logger_info ''Entering delete task'' s;
          s2 = Logger_debug (''Deleting task with id: '' @ ident) s1
      in catchLog ''Error deleting task''
           (\<lambda>st. let s3 = TaskRepository_delete ident st
                 in (Inr (), CacheService_invalidate (''task:'' @ ident) s3))
           s2)"

definition deleteByOwner_transaction :: "string \<Rightarrow> state \<Rightarrow> (error + nat) \<times> state" where
  "deleteByOwner_transaction owner s =
     (case TaskRepository_deleteByOwner owner s of
        (deletedCount, s1) \<Rightarrow>
          (case TransactionManager_commit (CacheService_clear s1) of
             (Inl e, s2) \<Rightarrow> (Inl e, s2)
           | (Inr _, s2) \<Rightarrow>
               (Inr deletedCount,
                Logger_info (''Successfully deleted '' @ digitsOf deletedCount @
                             '' tasks for user: '' @ owner) s2)))"

definition TaskService_deleteByOwner :: "string \<Rightarrow> state \<Rightarrow> (error + nat) \<times> state" where
  "TaskService_deleteByOwner owner s =
     (let s1 = Logger_info ''Entering deleteByOwner'' s;
          s2 = Logger_debug (''Deleting all tasks for user: '' @ owner) s1
      in catchLog ''Error deleting tasks by owner''
           (\<lambda>st. let s3 = Logger_debug ''Validating owner exists'' st
                 in case UserRepository_findById owner s3 of
                      (None, s4) \<Rightarrow> (Inl (NotFoundError ''Owner not found''), s4)
                    | (Some u, s4) \<Rightarrow>
                        catchRollback (deleteByOwner_transaction owner)
                          (TransactionManager_begin s4))
           s2)"

definition deleteMultiple_transaction ::
  "string list \<Rightarrow> state \<Rightarrow> (error + nat) \<times> state" where
  "deleteMultiple_transaction ids s =
     (case TaskRepository_deleteMultiple ids s of
        (deletedCount, s1) \<Rightarrow>
          (let s2 = fold (\<lambda>ident. CacheService_invalidate (''task:'' @ ident)) ids s1
           in case TransactionManager_commit s2 of
                (Inl e, s3) \<Rightarrow> (Inl e, s3)
              | (Inr _, s3) \<Rightarrow>
                  (Inr deletedCount,
                   Logger_info (''Successfully deleted '' @ digitsOf deletedCount @ '' tasks'')
                     s3)))"

definition TaskService_deleteMultiple ::
  "string list \<Rightarrow> state \<Rightarrow> (error + nat) \<times> state" where
  "TaskService_deleteMultiple ids s =
     (let s1 = Logger_info ''Entering deleteMultiple'' s;
          s2 = Logger_debug (''Deleting '' @ digitsOf (length ids) @ '' tasks'') s1
      in catchLog ''Error deleting multiple tasks''
           (\<lambda>st. let s3 = Logger_debug ''Validating task IDs'' st
                 in if length ids = 0
                    then (Inl (ValidationError ''At least one task ID required''), s3)
                    else catchRollback (deleteMultiple_transaction ids)
                           (TransactionManager_begin s3))
           s2)"

text \<open>
  \<open>nowGet\<close> and \<open>nowSet\<close> are the values of \<open>Date.now()\<close> in \<open>CacheService.get\<close> and
  in \<open>CacheService.set\<close>. A cached task is an object, so \<open>if (cached)\<close> holds exactly
  when the cache returned one.
\<close>

definition TaskService_getById ::
  "int \<Rightarrow> int \<Rightarrow> string \<Rightarrow> state \<Rightarrow> (error + Task) \<times> state" where
  "TaskService_getById nowGet nowSet ident s =
     (let s1 = Logger_info ''Entering getById task'' s;
          s2 = Logger_debug (''Fetching task with id: '' @ ident) s1
      in catchLog ''Error fetching task''
           (\<lambda>st. case CacheService_get nowGet (''task:'' @ ident) st of
                   (Some cached, s3) \<Rightarrow>
                     (Inr cached, Logger_info ''Returning task from cache'' s3)
                 | (None, s3) \<Rightarrow>
                     (case TaskRepository_findById ident s3 of
                        (None, s4) \<Rightarrow> (Inl (NotFoundError ''Task not found''), s4)
                      | (Some task, s4) \<Rightarrow>
                          (Inr task, CacheService_set nowSet (''task:'' @ ident) task None s4)))
           s2)"

text \<open>The validation of \<open>update\<close>, up to \<open>transactionManager.begin()\<close>.\<close>

definition update_validate :: "environment \<Rightarrow> UpdateTaskDTO \<Rightarrow> error option" where
  "update_validate env dto =
     (if (case upd_title dto of None \<Rightarrow> False | Some t \<Rightarrow> length (trim t) < 3)
      then Some (ValidationError ''Title must be at least 3 characters long'')
      else if (case upd_title dto of None \<Rightarrow> False | Some t \<Rightarrow> length t > 100)
      then Some (ValidationError ''Title must not exceed 100 characters'')
      else if (case upd_description dto of None \<Rightarrow> False | Some d \<Rightarrow> length d > 500)
      then Some (ValidationError ''Description must not exceed 500 characters'')
      else case validateDeadline env (upd_deadline dto) of
             Some e \<Rightarrow> Some e
           | None \<Rightarrow>
               (case validatePriority (upd_priority dto) of
                  Some e \<Rightarrow> Some e
                | None \<Rightarrow>
                    if (case upd_status dto of
                          None \<Rightarrow> False
                        | Some x \<Rightarrow> x \<noteq> [] \<and>
                            x \<notin> set [''TODO'', ''IN_PROGRESS'', ''DONE'', ''CANCELLED''])
                    then Some (ValidationError
                           ''Status must be TODO, IN_PROGRESS, DONE, or CANCELLED'')
                    else None))"

text \<open>\<open>updateData\<close>: the fields of the dto that are set (and truthy), strings trimmed.\<close>

definition updateData :: "UpdateTaskDTO \<Rightarrow> UpdateTaskDTO" where
  "updateData dto =
     \<lparr>upd_title = map_option trim (upd_title dto),
      upd_description = map_option trim (upd_description dto),
      upd_status = (case upd_status dto of None \<Rightarrow> None
                    | Some x \<Rightarrow> if x = [] then None else Some x),
      upd_deadline = upd_deadline dto,
      upd_priority = (case upd_priority dto of None \<Rightarrow> None
                      | Some x \<Rightarrow> if x = [] then None else Some x)\<rparr>"

text \<open>The duplicate check of \<open>update\<close>, made when the dto has a title.\<close>

definition update_similar :: "string \<Rightarrow> UpdateTaskDTO \<Rightarrow> Task \<Rightarrow> state \<Rightarrow> (error + unit) \<times> state" where
  "update_similar ident dto existing s =
     (case upd_title dto of
        None \<Rightarrow> (Inr (), s)
      | Some t \<Rightarrow>
          (case TaskRepository_findByOwnerAndTitlePattern
                  (ownerId existing) (trim t) (Some ident) s of
             (similarTasks, s1) \<Rightarrow>
               if length similarTasks > 0
               then (Inl (ValidationError
                        ''A task with similar title already exists for this user''),
                     Logger_debug (''Found '' @ digitsOf (length similarTasks) @
                                   '' similar task(s) for user'') s1)
               else (Inr (), s1)))"

text \<open>The body of the inner \<open>try\<close> of \<open>update\<close>.\<close>

definition update_transaction ::
  "string \<Rightarrow> UpdateTaskDTO \<Rightarrow> state \<Rightarrow> (error + Task) \<times> state" where
  "update_transaction ident dto s =
     (case TaskRepository_findById ident s of
        (None, s1) \<Rightarrow> (Inl (NotFoundError ''Task not found''), s1)
      | (Some existing, s1) \<Rightarrow>
          (case update_similar ident dto existing s1 of
             (Inl e, s2) \<Rightarrow> (Inl e, s2)
           | (Inr _, s2) \<Rightarrow>
               (case TaskRepository_update ident (updateData dto) s2 of
                  (None, s3) \<Rightarrow> (Inl (NotFoundError ''Task not found''), s3)
                | (Some updated, s3) \<Rightarrow>
                    (case TransactionManager_commit
                            (CacheService_invalidate (''task:'' @ ident) s3) of
                       (Inl e, s4) \<Rightarrow> (Inl e, s4)
                     | (Inr _, s4) \<Rightarrow>
                         (Inr updated,
                          Logger_info (''Task updated successfully: '' @ ident) s4)))))"

definition TaskService_update ::
  "environment \<Rightarrow> string \<Rightarrow> UpdateTaskDTO \<Rightarrow> state \<Rightarrow> (error + Task) \<times> state" where
  "TaskService_update env ident dto s =
     (let s1 = Logger_info ''Entering update task'' s;
          s2 = Logger_debug (''Updating task with id: '' @ ident) s1
      in catchLog ''Error updating task''
           (\<lambda>st. let s3 = Logger_debug ''Validating update data'' st
                 in case update_validate env dto of
                      Some e \<Rightarrow> (Inl e, s3)
                    | None \<Rightarrow>
                        catchRollback (update_transaction ident dto)
                          (TransactionManager_begin s3))
           s2)"

section \<open>Reachable states\<close>

text \<open>
  The states that the operations of the task service reach from a state with an empty
  task store, one call after the other. \<open>crypto.randomUUID()\<close> returns an id that no
  stored task has. Users may be saved to the user store in between.
\<close>

inductive reachable :: "state \<Rightarrow> bool" where
  empty: "tasks s = [] \<Longrightarrow> reachable s"
| create: "reachable s \<Longrightarrow> randomUUID env \<notin> task_id ` set (tasks s) \<Longrightarrow>
     reachable (snd (TaskService_create env dto s))"
| update: "reachable s \<Longrightarrow> reachable (snd (TaskService_update env ident udto s))"
| delete: "reachable s \<Longrightarrow> reachable (snd (TaskService_delete ident s))"
| deleteByOwner: "reachable s \<Longrightarrow> reachable (snd (TaskService_deleteByOwner owner s))"
| deleteMultiple: "reachable s \<Longrightarrow> reachable (snd (TaskService_deleteMultiple ids s))"
| getById: "reachable s \<Longrightarrow> reachable (snd (TaskService_getById nowGet nowSet ident s))"
| saveUser: "reachable s \<Longrightarrow> reachable (snd (UserRepository_save user s))"

text \<open>
  Two tasks of one owner overlap when the trimmed title of one occurs in the trimmed
  title of the other, case ignored.
\<close>

definition titlesOverlap :: "Task \<Rightarrow> Task \<Rightarrow> bool" where
  "titlesOverlap a b =
     (ownerId a = ownerId b \<and>
      (includesStr (toLowerCase (trim (title a))) (toLowerCase (trim (title b))) \<or>
       includesStr (toLowerCase (trim (title b))) (toLowerCase (trim (title a)))))"

definition noOverlappingTitles :: "Task list \<Rightarrow> bool" where
  "noOverlappingTitles ts = (\<forall>a\<in>set ts. \<forall>b\<in>set ts. a \<noteq> b \<longrightarrow> \<not> titlesOverlap a b)"

text \<open>Two tasks of one owner have the same title when the trimmed titles are equal, case ignored.\<close>

definition sameTitle :: "Task \<Rightarrow> Task \<Rightarrow> bool" where
  "sameTitle a b =
     (ownerId a = ownerId b \<and>
      toLowerCase (trim (title a)) = toLowerCase (trim (title b)))"

definition noEqualTitles :: "Task list \<Rightarrow> bool" where
  "noEqualTitles ts =
     (\<forall>a\<in>set ts. \<forall>b\<in>set ts. task_id a \<noteq> task_id b \<longrightarrow> \<not> sameTitle a b)"

text \<open>What the operations keep: distinct ids, trimmed titles, no equal titles.\<close>

definition storeInvariant :: "Task list \<Rightarrow> bool" where
  "storeInvariant ts =
     (distinct (map task_id ts) \<and> (\<forall>t\<in>set ts. trim (title t) = title t) \<and> noEqualTitles ts)"

section \<open>Example values\<close>

definition exampleUser :: User where
  "exampleUser = \<lparr>user_id = ''U'', email = ''u@example.org'', password = ''hash'', role = USER\<rparr>"

definition exampleState :: state where
  "exampleState =
     \<lparr>tasks = [], users = [exampleUser], cache = Map.empty, isActive = False,
      operations = [], console = []\<rparr>"

definition exampleEnv :: environment where
  "exampleEnv =
     \<lparr>localTZA = (\<lambda>t isUTC. 0), clockDeadline = 1700000000000, clockFiveYears = 1700000000000,
      clockCreatedAt = 1700000000000, randomUUID = ''id1''\<rparr>"

text \<open>
  The offsets of America/New_York around 2024: daylight saving time, four hours behind
  UTC, from 2024-03-10T07:00Z to 2024-11-03T06:00Z, and standard time, five hours behind,
  otherwise (as in March 2029).
\<close>

definition newYork :: timeZone where
  "newYork t isUTC =
     (if isUTC
      then (if 1710054000000 \<le> t \<and> t < 1730613600000 then - 14400000 else - 18000000)
      else (if 1710039600000 \<le> t \<and> t < 1730599200000 then - 14400000 else - 18000000))"

text \<open>A call at 2024-03-10T16:00Z, noon in New York.\<close>

definition newYorkEnv :: environment where
  "newYorkEnv =
     \<lparr>localTZA = newYork, clockDeadline = 1710086400000, clockFiveYears = 1710086400000,
      clockCreatedAt = 1710086400000, randomUUID = ''id1''\<rparr>"

definition exampleDTO :: CreateTaskDTO where
  "exampleDTO =
     \<lparr>new_title = ''Write report'', new_description = None, new_deadline = None,
      new_priority = None, new_ownerId = ''U''\<rparr>"

definition exampleTask :: Task where
  "exampleTask =
     \<lparr>task_id = ''id1'', title = ''Write report'', description = None, status = ''TODO'',
      deadline = None, priority = ''MEDIUM'', ownerId = ''U'', createdAt = 1700000000000\<rparr>"

definition exampleUpdate :: UpdateTaskDTO where
  "exampleUpdate =
     \<lparr>upd_title = None, upd_description = None, upd_status = None, upd_deadline = None,
      upd_priority = None\<rparr>"

definition otherTask :: Task where
  "otherTask =
     \<lparr>task_id = ''id2'', title = ''Plan trip'', description = None, status = ''TODO'',
      deadline = None, priority = ''HIGH'', ownerId = ''V'', createdAt = 1700000000000\<rparr>"

text \<open>A state with a task of each of two owners, the second one cached.\<close>

definition cachedState :: state where
  "cachedState =
     exampleState
       \<lparr>tasks := [exampleTask, otherTask],
        cache := [''task:id2'' \<mapsto> \<lparr>data = otherTask, expiry = 1700000060000\<rparr>]\<rparr>"

text \<open>The state after a \<open>create\<close> of "report" and then of "Write report", for one owner.\<close>

definition twoReports :: state where
  "twoReports =
     snd (TaskService_create (exampleEnv\<lparr>randomUUID := ''id2''\<rparr>) exampleDTO
       (snd (TaskService_create exampleEnv (exampleDTO\<lparr>new_title := ''report''\<rparr>)
          exampleState)))"

section \<open>Unfolding\<close>

lemmas Logger_defs = Logger_info_def Logger_debug_def Logger_error_def

lemmas TransactionManager_defs = TransactionManager_begin_def TransactionManager_commit_def
  TransactionManager_rollback_def

lemmas CacheService_defs = CacheService_set_def CacheService_get_def
  CacheService_invalidate_def CacheService_clear_def

lemmas TaskRepository_defs = TaskRepository_save_def TaskRepository_delete_def
  TaskRepository_findById_def TaskRepository_update_def
  TaskRepository_findByOwnerAndTitlePattern_def TaskRepository_findByOwner_def
  TaskRepository_deleteByOwner_def TaskRepository_deleteMultiple_def

lemmas validate_defs = create_validate_def update_validate_def validateDeadline_def
  validatePriority_def trim_def isWhiteSpace_def

lemmas example_defs = exampleUser_def exampleState_def exampleEnv_def exampleDTO_def
  exampleTask_def exampleUpdate_def otherTask_def cachedState_def newYorkEnv_def

section \<open>Lists\<close>

lemma length_filter_removed:
  "length xs - length (filter (\<lambda>x. \<not> P x) xs) = length (filter P xs)"
  using sum_length_filter_compl [of P xs] by simp

lemma length_filter_distinct_key:
  "distinct (map f xs) \<Longrightarrow> k \<in> f ` set xs \<Longrightarrow> length (filter (\<lambda>x. f x = k) xs) = 1"
proof (induction xs)
  case Nil
  then show ?case by simp
next
  case (Cons x xs)
  show ?case
  proof (cases "f x = k")
    case True
    from Cons.prems have "f x \<notin> f ` set xs" by simp
    with True have "filter (\<lambda>x. f x = k) xs = []"
      unfolding filter_empty_conv by (metis imageI)
    with True show ?thesis by simp
  next
    case False
    with Cons show ?thesis by auto
  qed
qed

lemma fold_invalidate_fields:
  "tasks (fold (\<lambda>ident. CacheService_invalidate (f ident)) ids s) = tasks s
   \<and> isActive (fold (\<lambda>ident. CacheService_invalidate (f ident)) ids s) = isActive s"
  by (induction ids arbitrary: s) (simp_all add: CacheService_invalidate_def Logger_defs Let_def)

section \<open>Lower case and rounding\<close>

text \<open>The table of \<open>toLowerCaseChar\<close>, unit by unit: it adds 32 to the capital letters.\<close>

lemma toLowerCaseChar_units:
  "\<forall>c\<in>set (Enum.enum :: char list). toLowerCaseChar c =
     (if (65 \<le> (of_char c :: int) \<and> (of_char c :: int) \<le> 90)
         \<or> (192 \<le> (of_char c :: int) \<and> (of_char c :: int) \<le> 222 \<and> (of_char c :: int) \<noteq> 215)
      then char_of (of_char c + (32 :: int)) else c)"
  by code_simp

lemma toLowerCaseChar_code_point:
  "toLowerCaseChar c =
     (if (65 \<le> (of_char c :: int) \<and> (of_char c :: int) \<le> 90)
         \<or> (192 \<le> (of_char c :: int) \<and> (of_char c :: int) \<le> 222 \<and> (of_char c :: int) \<noteq> 215)
      then char_of (of_char c + (32 :: int)) else c)"
proof -
  have "c \<in> set (Enum.enum :: char list)"
    by (simp add: enum_UNIV)
  with toLowerCaseChar_units show ?thesis
    by blast
qed




section \<open>The year of a time value\<close>

lemma div_bounds:
  fixes x :: int
  assumes "0 < n"
  shows "n * (x div n) \<le> x" and "x - (n - 1) \<le> n * (x div n)"
proof -
  have "x = n * (x div n) + x mod n"
    by simp
  moreover have "0 \<le> x mod n" "x mod n < n"
    using assms by simp_all
  ultimately show "n * (x div n) \<le> x" and "x - (n - 1) \<le> n * (x div n)"
    by linarith+
qed

lemma DayFromYear_linear:
  "146097 * (y - 1970) - 506 \<le> 400 * DayFromYear y"
  "400 * DayFromYear y \<le> 146097 * (y - 1970) + 589"
proof -
  define a where "a = (y - 1969) div 4"
  define b where "b = (y - 1901) div 100"
  define c where "c = (y - 1601) div 400"
  have a: "4 * a \<le> y - 1969" "y - 1969 - 3 \<le> 4 * a"
    using div_bounds [of 4 "y - 1969"] by (simp_all add: a_def)
  have b: "100 * b \<le> y - 1901" "y - 1901 - 99 \<le> 100 * b"
    using div_bounds [of 100 "y - 1901"] by (simp_all add: b_def)
  have c: "400 * c \<le> y - 1601" "y - 1601 - 399 \<le> 400 * c"
    using div_bounds [of 400 "y - 1601"] by (simp_all add: c_def)
  have d: "DayFromYear y = 365 * (y - 1970) + a - b + c"
    by (simp add: DayFromYear_def a_def b_def c_def)
  have a': "100 * (y - 1972) \<le> 400 * a" "400 * a \<le> 100 * (y - 1969)"
    using a by simp_all
  have b': "4 * (y - 2000) \<le> 400 * b" "400 * b \<le> 4 * (y - 1901)"
    using b by simp_all
  have e: "400 * DayFromYear y = 146000 * (y - 1970) + 400 * a - 400 * b + 400 * c"
    unfolding d by (simp add: algebra_simps)
  show "146097 * (y - 1970) - 506 \<le> 400 * DayFromYear y"
    unfolding e using a' b' c by simp
  show "400 * DayFromYear y \<le> 146097 * (y - 1970) + 589"
    unfolding e using a' b' c by simp
qed

text \<open>\<open>YearFromTime t\<close> is a year that the day of \<open>t\<close> lies in.\<close>

lemma YearFromTime_bracket:
  "DayFromYear (YearFromTime t) \<le> Day t \<and> Day t < DayFromYear (YearFromTime t + 1)"
proof -
  define d where "d = Day t"
  define k where "k = (d * 400) div 146097"
  have k: "146097 * k \<le> 400 * d" "400 * d - 146096 \<le> 146097 * k"
    using div_bounds [of 146097 "d * 400"] by (simp_all add: k_def)
  have "400 * DayFromYear (1970 + k - 1) \<le> 400 * d"
    using DayFromYear_linear(2) [of "1970 + k - 1"] k by simp
  then have low: "DayFromYear (1970 + k - 1) \<le> d"
    by simp
  have "400 * d < 400 * DayFromYear (1970 + k + 1 + 1)"
    using DayFromYear_linear(1) [of "1970 + k + 1 + 1"] k by simp
  then have high: "d < DayFromYear (1970 + k + 1 + 1)"
    by simp
  show ?thesis
    unfolding YearFromTime_def Let_def d_def [symmetric] k_def [symmetric]
    using low high by simp
qed

section \<open>Five years ahead\<close>

lemma five_years_days:
  fixes A B C A' B' C' y :: int
  shows "A' - A \<ge> 1 \<Longrightarrow> B' - B \<le> 1 \<Longrightarrow> C' - C \<ge> 0 \<Longrightarrow>
     365 * (y + 5 - 1970) + A' - B' + C' - (365 * (y - 1970) + A - B + C) \<ge> 1825"
  by simp

lemma DayFromYear_five: "DayFromYear (y + 5) - DayFromYear y \<ge> 1825"
proof -
  have "(y - 1969 + 4) div 4 \<le> (y + 5 - 1969) div 4"
    by (rule zdiv_mono1) simp_all
  then have a: "(y + 5 - 1969) div 4 - (y - 1969) div 4 \<ge> 1"
    by simp
  have "(y + 5 - 1901) div 100 \<le> (y - 1901 + 100) div 100"
    by (rule zdiv_mono1) simp_all
  then have b: "(y + 5 - 1901) div 100 - (y - 1901) div 100 \<le> 1"
    by simp
  have "(y - 1601) div 400 \<le> (y + 5 - 1601) div 400"
    by (rule zdiv_mono1) simp_all
  then have c: "(y + 5 - 1601) div 400 - (y - 1601) div 400 \<ge> 0"
    by simp
  show ?thesis
    unfolding DayFromYear_def by (rule five_years_days [OF a b c])
qed

lemma monthStart_leap:
  "0 \<le> l \<Longrightarrow> l \<le> 1 \<Longrightarrow> 0 \<le> l' \<Longrightarrow> l' \<le> 1 \<Longrightarrow> monthStart m l' - monthStart m l \<ge> -1"
  unfolding monthStart_def by simp

lemma MonthFromTime_range: "0 \<le> MonthFromTime t \<and> MonthFromTime t \<le> 11"
  unfolding MonthFromTime_def Let_def by simp


text \<open>
  Setting the year five years ahead moves a date at least 1824 days ahead in local time,
  so at least 1822 days ahead when the offsets of the zone are less than a day.
\<close>

lemma setFullYear_five_later:
  assumes zone: "offsetsBounded z"
    and "setFullYear z (Some t) (map_option (\<lambda>y. y + 5) (getFullYear z (Some t))) = Some f"
  shows "t + 1822 * msPerDay \<le> f"
proof -
  define lt where "lt = LocalTime z t"
  define y where "y = YearFromTime lt"
  define m where "m = MonthFromTime lt"
  define l' :: int where "l' = (if DaysInYear (y + 5) = 366 then 1 else 0)"
  define l where "l = InLeapYear lt"
  have mr: "m div 12 = 0" "m mod 12 = m"
    using MonthFromTime_range [of lt] unfolding m_def by auto
  have f: "f = UTC z (MakeDate (MakeDay (y + 5) m (DateFromTime lt)) (TimeWithinDay lt))"
    using assms(2) unfolding lt_def y_def m_def
    by (simp add: setFullYear_def getFullYear_def TimeClip_def Let_def split: if_splits)
  have day: "MakeDay (y + 5) m (DateFromTime lt) =
      Day lt + (DayFromYear (y + 5) - DayFromYear y) + (monthStart m l' - monthStart m l)"
    unfolding MakeDay_def Let_def mr DateFromTime_def DayWithinYear_def
      y_def [symmetric] m_def [symmetric] l_def [symmetric]
    by (simp add: l'_def)
  have "monthStart m l' - monthStart m l \<ge> -1"
    by (rule monthStart_leap) (simp_all add: l_def l'_def InLeapYear_def)
  with DayFromYear_five [of y]
  have "Day lt + 1824 \<le> MakeDay (y + 5) m (DateFromTime lt)"
    unfolding day by simp
  then have "(Day lt + 1824) * msPerDay \<le> MakeDay (y + 5) m (DateFromTime lt) * msPerDay"
    by (simp add: msPerDay_def)
  moreover have "Day lt * msPerDay + TimeWithinDay lt = lt"
    by (simp add: Day_def TimeWithinDay_def)
  ultimately have local: "lt + 1824 * msPerDay \<le>
      MakeDate (MakeDay (y + 5) m (DateFromTime lt)) (TimeWithinDay lt)"
    unfolding MakeDate_def by (simp add: algebra_simps)
  have "\<bar>z t True\<bar> \<le> msPerDay"
    and "\<bar>z (MakeDate (MakeDay (y + 5) m (DateFromTime lt)) (TimeWithinDay lt)) False\<bar>
      \<le> msPerDay"
    using zone by (simp_all add: offsetsBounded_def)
  with local show ?thesis
    unfolding f UTC_def lt_def LocalTime_def by linarith
qed

section \<open>The cache\<close>









section \<open>Creating a task\<close>

lemma create_validate_fails:
  "create_validate env dto = Some e \<Longrightarrow>
     fst (TaskService_create env dto s) = Inl e
     \<and> tasks (snd (TaskService_create env dto s)) = tasks s"
  by (simp add: TaskService_create_def catchLog_def Logger_defs Let_def)

lemma create_succeeds:
  assumes "create_validate env dto = None"
    and "new_ownerId dto \<in> user_id ` set (users s)"
    and "\<forall>t\<in>set (tasks s). ownerId t = new_ownerId dto \<longrightarrow>
           \<not> includesStr (toLowerCase (title t)) (toLowerCase (trim (new_title dto)))"
  shows "fst (TaskService_create env dto s) = Inr (newTask env dto)"
    and "tasks (snd (TaskService_create env dto s)) = tasks s @ [newTask env dto]"
    and "users (snd (TaskService_create env dto s)) = users s"
proof -
  obtain u where owner: "find (\<lambda>u. user_id u = new_ownerId dto) (users s) = Some u"
    using assms(2) by (cases "find (\<lambda>u. user_id u = new_ownerId dto) (users s)")
      (auto simp: find_None_iff)
  have nodup: "filter (\<lambda>t. ownerId t = new_ownerId dto \<and>
      includesStr (toLowerCase (title t)) (toLowerCase (trim (new_title dto)))) (tasks s) = []"
    using assms(3) by (auto simp: filter_empty_conv)
  show "fst (TaskService_create env dto s) = Inr (newTask env dto)"
    and "tasks (snd (TaskService_create env dto s)) = tasks s @ [newTask env dto]"
    and "users (snd (TaskService_create env dto s)) = users s"
    using assms(1) owner nodup
    by (simp_all add: TaskService_create_def catchLog_def catchRollback_def
        create_transaction_def UserRepository_findById_def
        TaskRepository_findByOwnerAndTitlePattern_def TaskRepository_save_def
        TransactionManager_defs Logger_defs Let_def)
qed

lemma create_similar_fails:
  assumes "create_validate env dto = None"
    and "new_ownerId dto \<in> user_id ` set (users s)"
    and "t \<in> set (tasks s)" and "ownerId t = new_ownerId dto"
    and "includesStr (toLowerCase (title t)) (toLowerCase (trim (new_title dto)))"
  shows "fst (TaskService_create env dto s) =
           Inl (ValidationError ''A task with similar title already exists for this user'')"
    and "tasks (snd (TaskService_create env dto s)) = tasks s"
    and "users (snd (TaskService_create env dto s)) = users s"
proof -
  obtain u where owner: "find (\<lambda>u. user_id u = new_ownerId dto) (users s) = Some u"
    using assms(2) by (cases "find (\<lambda>u. user_id u = new_ownerId dto) (users s)")
      (auto simp: find_None_iff)
  have dup: "filter (\<lambda>t. ownerId t = new_ownerId dto \<and>
      includesStr (toLowerCase (title t)) (toLowerCase (trim (new_title dto)))) (tasks s) \<noteq> []"
    using assms(3-5) by (auto simp: filter_empty_conv)
  show "fst (TaskService_create env dto s) =
           Inl (ValidationError ''A task with similar title already exists for this user'')"
    and "tasks (snd (TaskService_create env dto s)) = tasks s"
    and "users (snd (TaskService_create env dto s)) = users s"
    using assms(1) owner dup
    by (simp_all add: TaskService_create_def catchLog_def catchRollback_def
        create_transaction_def UserRepository_findById_def
        TaskRepository_findByOwnerAndTitlePattern_def
        TransactionManager_defs Logger_defs Let_def)
qed

text \<open>
  Claim C4. When the dto passes the field validation of \<open>create\<close> and no user of the
  user store has the dto's owner id, \<open>create\<close> fails with the NotFound error
  "Owner not found" and the task store is what it was.
\<close>

theorem create_owner_missing:
  assumes "create_validate env dto = None"
    and "new_ownerId dto \<notin> user_id ` set (users s)"
  shows "fst (TaskService_create env dto s) = Inl (NotFoundError ''Owner not found'')
         \<and> tasks (snd (TaskService_create env dto s)) = tasks s"
proof -
  have "find (\<lambda>u. user_id u = new_ownerId dto) (users s) = None"
    using assms(2) by (force simp: find_None_iff)
  then show ?thesis
    using assms(1)
    by (simp add: TaskService_create_def catchLog_def catchRollback_def create_transaction_def
        UserRepository_findById_def TransactionManager_defs Logger_defs Let_def)
qed

theorem create_owner_missing_witness:
  "create_validate exampleEnv (exampleDTO\<lparr>new_ownerId := ''V''\<rparr>) = None
   \<and> new_ownerId (exampleDTO\<lparr>new_ownerId := ''V''\<rparr>) \<notin> user_id ` set (users exampleState)
   \<and> fst (TaskService_create exampleEnv (exampleDTO\<lparr>new_ownerId := ''V''\<rparr>) exampleState)
       = Inl (NotFoundError ''Owner not found'')
   \<and> tasks (snd (TaskService_create exampleEnv (exampleDTO\<lparr>new_ownerId := ''V''\<rparr>)
        exampleState)) = []"
proof -
  have valid: "create_validate exampleEnv (exampleDTO\<lparr>new_ownerId := ''V''\<rparr>) = None"
    by (simp add: validate_defs example_defs)
  have missing:
    "new_ownerId (exampleDTO\<lparr>new_ownerId := ''V''\<rparr>) \<notin> user_id ` set (users exampleState)"
    by (simp add: example_defs)
  have "tasks exampleState = []"
    by (simp add: exampleState_def)
  then show ?thesis
    using valid missing create_owner_missing [OF valid missing] by simp
qed

lemma create_transaction_error_tasks:
  "isActive s \<Longrightarrow> create_transaction env dto s = (Inl e, s') \<Longrightarrow>
     tasks s' = tasks s \<and> isActive s'"
  by (auto simp: create_transaction_def UserRepository_findById_def TaskRepository_defs
      TransactionManager_commit_def Logger_defs Let_def split: option.splits if_splits)

text \<open>
  Claim C10. Whenever \<open>create\<close> ends with an error, of whatever kind, the task store
  is what it was before the call: the only statement of \<open>create\<close> that changes the
  store is \<open>save\<close>, after which nothing fails, since the transaction that \<open>commit\<close>
  needs was begun by the same call.
\<close>

theorem create_atomic_on_error:
  assumes "isl (fst (TaskService_create env dto s))"
  shows "tasks (snd (TaskService_create env dto s)) = tasks s"
proof (cases "create_validate env dto")
  case (Some e)
  then show ?thesis
    by (simp add: TaskService_create_def catchLog_def Logger_defs)
next
  case None
  let ?s3 = "TransactionManager_begin (Logger_debug ''Validating task data''
      (Logger_debug (''Creating task with title: '' @ new_title dto)
        (Logger_info ''Entering create task'' s)))"
  have act: "isActive ?s3" and t3: "tasks ?s3 = tasks s"
    by (simp_all add: TransactionManager_begin_def Logger_defs)
  obtain r s4 where body: "create_transaction env dto ?s3 = (r, s4)"
    by (cases "create_transaction env dto ?s3")
  show ?thesis
  proof (cases r)
    case (Inl e)
    with body act have "tasks s4 = tasks ?s3" "isActive s4"
      using create_transaction_error_tasks by blast+
    with body Inl None t3 show ?thesis
      by (simp add: TaskService_create_def catchLog_def catchRollback_def Let_def
          TransactionManager_rollback_def Logger_defs)
  next
    case (Inr t)
    with body None assms show ?thesis
      by (simp add: TaskService_create_def catchLog_def catchRollback_def Let_def)
  qed
qed

theorem create_atomic_on_error_witness:
  "isl (fst (TaskService_create exampleEnv (exampleDTO\<lparr>new_ownerId := ''V''\<rparr>) cachedState))
   \<and> tasks (snd (TaskService_create exampleEnv (exampleDTO\<lparr>new_ownerId := ''V''\<rparr>)
        cachedState)) = [exampleTask, otherTask]"
proof -
  have failing:
    "isl (fst (TaskService_create exampleEnv (exampleDTO\<lparr>new_ownerId := ''V''\<rparr>)
       cachedState))"
    by code_simp
  have "tasks cachedState = [exampleTask, otherTask]"
    by (simp add: cachedState_def)
  then show ?thesis
    using failing create_atomic_on_error [OF failing] by simp
qed

text \<open>
  Claim C5. A \<open>create\<close> whose title is shorter than 3 after trimming fails with a
  Validation error; one whose title is longer than 100 before trimming fails with a
  Validation error; and when the trimmed title has at least 3 and the title at most 100
  characters, the description, deadline and priority checks pass, the owner is in the
  user store and the duplicate check finds nothing, \<open>create\<close> succeeds: it returns the
  new task (the generated id, the trimmed title and description, status TODO, the dto's
  deadline, its priority or MEDIUM, its owner, the creation time), and the task store
  has it appended.
\<close>

theorem create_title_length:
  "(length (trim (new_title da)) < 3 \<longrightarrow>
      fst (TaskService_create ea da sa) \<in>
        {Inl (ValidationError ''Title is required''),
         Inl (ValidationError ''Title must be at least 3 characters long'')})
   \<and> (length (new_title db) > 100 \<longrightarrow>
      fst (TaskService_create eb db sb) \<in>
        {Inl (ValidationError ''Title must be at least 3 characters long''),
         Inl (ValidationError ''Title must not exceed 100 characters'')})
   \<and> (3 \<le> length (trim (new_title dc)) \<and> length (new_title dc) \<le> 100
       \<and> (case new_description dc of None \<Rightarrow> True | Some d \<Rightarrow> length d \<le> 500)
       \<and> validateDeadline ec (new_deadline dc) = None
       \<and> validatePriority (new_priority dc) = None
       \<and> new_ownerId dc \<in> user_id ` set (users sc)
       \<and> fst (TaskRepository_findByOwnerAndTitlePattern
                (new_ownerId dc) (trim (new_title dc)) None sc) = [] \<longrightarrow>
      fst (TaskService_create ec dc sc) = Inr (newTask ec dc)
      \<and> title (newTask ec dc) = trim (new_title dc)
      \<and> task_id (newTask ec dc) = randomUUID ec
      \<and> description (newTask ec dc) = map_option trim (new_description dc)
      \<and> status (newTask ec dc) = ''TODO''
      \<and> deadline (newTask ec dc) = new_deadline dc
      \<and> priority (newTask ec dc) =
          (case new_priority dc of None \<Rightarrow> ''MEDIUM''
           | Some p \<Rightarrow> if p = [] then ''MEDIUM'' else p)
      \<and> ownerId (newTask ec dc) = new_ownerId dc
      \<and> createdAt (newTask ec dc) = clockCreatedAt ec
      \<and> tasks (snd (TaskService_create ec dc sc)) = tasks sc @ [newTask ec dc])"
proof (intro conjI impI)
  assume "length (trim (new_title da)) < 3"
  then show "fst (TaskService_create ea da sa) \<in>
        {Inl (ValidationError ''Title is required''),
         Inl (ValidationError ''Title must be at least 3 characters long'')}"
    by (simp add: TaskService_create_def catchLog_def create_validate_def Let_def)
next
  assume "length (new_title db) > 100"
  then have "new_title db \<noteq> []" by auto
  with \<open>length (new_title db) > 100\<close>
  show "fst (TaskService_create eb db sb) \<in>
        {Inl (ValidationError ''Title must be at least 3 characters long''),
         Inl (ValidationError ''Title must not exceed 100 characters'')}"
    by (simp add: TaskService_create_def catchLog_def create_validate_def Let_def)
next
  assume h: "3 \<le> length (trim (new_title dc)) \<and> length (new_title dc) \<le> 100
       \<and> (case new_description dc of None \<Rightarrow> True | Some d \<Rightarrow> length d \<le> 500)
       \<and> validateDeadline ec (new_deadline dc) = None
       \<and> validatePriority (new_priority dc) = None
       \<and> new_ownerId dc \<in> user_id ` set (users sc)
       \<and> fst (TaskRepository_findByOwnerAndTitlePattern
                (new_ownerId dc) (trim (new_title dc)) None sc) = []"
  then have "trim (new_title dc) \<noteq> []" by auto
  then have nonempty: "new_title dc \<noteq> []" by (auto simp: trim_def)
  have valid: "create_validate ec dc = None"
    using h nonempty by (auto simp: create_validate_def split: option.splits)
  have nodup: "\<forall>t\<in>set (tasks sc). ownerId t = new_ownerId dc \<longrightarrow>
      \<not> includesStr (toLowerCase (title t)) (toLowerCase (trim (new_title dc)))"
    using h
    by (auto simp: TaskRepository_findByOwnerAndTitlePattern_def Logger_defs Let_def
        filter_empty_conv)
  from h have owner: "new_ownerId dc \<in> user_id ` set (users sc)"
    by simp
  show "fst (TaskService_create ec dc sc) = Inr (newTask ec dc)"
    and "tasks (snd (TaskService_create ec dc sc)) = tasks sc @ [newTask ec dc]"
    using create_succeeds [OF valid owner nodup] by simp_all
  show "title (newTask ec dc) = trim (new_title dc)"
    and "task_id (newTask ec dc) = randomUUID ec"
    and "description (newTask ec dc) = map_option trim (new_description dc)"
    and "status (newTask ec dc) = ''TODO''"
    and "deadline (newTask ec dc) = new_deadline dc"
    and "priority (newTask ec dc) =
          (case new_priority dc of None \<Rightarrow> ''MEDIUM''
           | Some p \<Rightarrow> if p = [] then ''MEDIUM'' else p)"
    and "ownerId (newTask ec dc) = new_ownerId dc"
    and "createdAt (newTask ec dc) = clockCreatedAt ec"
    by (simp_all add: newTask_def)
qed

theorem create_title_length_witness:
  "length (trim (new_title (exampleDTO\<lparr>new_title := ''  ab  ''\<rparr>))) < 3
   \<and> fst (TaskService_create exampleEnv (exampleDTO\<lparr>new_title := ''  ab  ''\<rparr>) exampleState)
       = Inl (ValidationError ''Title must be at least 3 characters long'')
   \<and> length (new_title (exampleDTO\<lparr>new_title := replicate 101 (CHR ''a'')\<rparr>)) > 100
   \<and> fst (TaskService_create exampleEnv (exampleDTO\<lparr>new_title := replicate 101 (CHR ''a'')\<rparr>)
          exampleState)
       = Inl (ValidationError ''Title must not exceed 100 characters'')
   \<and> (3 \<le> length (trim (new_title exampleDTO)) \<and> length (new_title exampleDTO) \<le> 100
       \<and> (case new_description exampleDTO of None \<Rightarrow> True | Some d \<Rightarrow> length d \<le> 500)
       \<and> validateDeadline exampleEnv (new_deadline exampleDTO) = None
       \<and> validatePriority (new_priority exampleDTO) = None
       \<and> new_ownerId exampleDTO \<in> user_id ` set (users exampleState)
       \<and> fst (TaskRepository_findByOwnerAndTitlePattern
                (new_ownerId exampleDTO) (trim (new_title exampleDTO)) None exampleState) = [])
   \<and> fst (TaskService_create exampleEnv exampleDTO exampleState) = Inr exampleTask
   \<and> tasks (snd (TaskService_create exampleEnv exampleDTO exampleState)) = [exampleTask]"
proof -
  let ?short = "exampleDTO\<lparr>new_title := ''  ab  ''\<rparr>"
  let ?long = "exampleDTO\<lparr>new_title := replicate 101 (CHR ''a'')\<rparr>"
  have short: "length (trim (new_title ?short)) < 3"
    by (simp add: trim_def isWhiteSpace_def)
  have long: "length (new_title ?long) > 100"
    by simp
  have trimmed: "trim (new_title exampleDTO) = ''Write report''"
    by (simp add: exampleDTO_def trim_def isWhiteSpace_def)
  have ok: "3 \<le> length (trim (new_title exampleDTO)) \<and> length (new_title exampleDTO) \<le> 100
       \<and> (case new_description exampleDTO of None \<Rightarrow> True | Some d \<Rightarrow> length d \<le> 500)
       \<and> validateDeadline exampleEnv (new_deadline exampleDTO) = None
       \<and> validatePriority (new_priority exampleDTO) = None
       \<and> new_ownerId exampleDTO \<in> user_id ` set (users exampleState)
       \<and> fst (TaskRepository_findByOwnerAndTitlePattern
                (new_ownerId exampleDTO) (trim (new_title exampleDTO)) None exampleState) = []"
    unfolding trimmed
    by (simp add: example_defs validateDeadline_def validatePriority_def
        TaskRepository_findByOwnerAndTitlePattern_def Logger_defs Let_def)
  have notRequired: "fst (TaskService_create exampleEnv ?short exampleState)
       \<noteq> Inl (ValidationError ''Title is required'')"
    by (simp add: TaskService_create_def catchLog_def create_validate_def Let_def
        trim_def isWhiteSpace_def)
  have notShort: "fst (TaskService_create exampleEnv ?long exampleState)
       \<noteq> Inl (ValidationError ''Title must be at least 3 characters long'')"
    by (simp add: TaskService_create_def catchLog_def create_validate_def Let_def
        trim_def isWhiteSpace_def)
  have empty: "tasks exampleState = []"
    by (simp add: exampleState_def)
  have built: "newTask exampleEnv exampleDTO = exampleTask"
    by (simp add: newTask_def example_defs trim_def isWhiteSpace_def)
  note inst = create_title_length [of ?short exampleEnv exampleState ?long exampleEnv
      exampleState exampleDTO exampleEnv exampleState]
  from inst short notRequired
  have a: "fst (TaskService_create exampleEnv ?short exampleState)
       = Inl (ValidationError ''Title must be at least 3 characters long'')"
    by blast
  from inst long notShort
  have b: "fst (TaskService_create exampleEnv ?long exampleState)
       = Inl (ValidationError ''Title must not exceed 100 characters'')"
    by blast
  from inst ok
  have c: "fst (TaskService_create exampleEnv exampleDTO exampleState)
             = Inr (newTask exampleEnv exampleDTO)
         \<and> tasks (snd (TaskService_create exampleEnv exampleDTO exampleState))
             = tasks exampleState @ [newTask exampleEnv exampleDTO]"
    by blast
  show ?thesis
    using short long ok a b c unfolding built empty by simp
qed

section \<open>Deleting tasks\<close>

text \<open>
  Claim C9. \<open>deleteMultiple\<close> of the empty list fails with a Validation error and
  leaves the task store as it is. For a non-empty list it removes exactly the tasks
  whose id is in the list and returns how many it removed. In particular, when the ids of
  the store are distinct, \<open>id1\<close> is the id of a task of the store and \<open>id2\<close> is not,
  \<open>deleteMultiple([id1, id2])\<close> returns 1.
\<close>

theorem deleteMultiple_contract:
  "fst (TaskService_deleteMultiple [] sa) = Inl (ValidationError ''At least one task ID required'')
   \<and> tasks (snd (TaskService_deleteMultiple [] sa)) = tasks sa
   \<and> (ids \<noteq> [] \<longrightarrow>
        fst (TaskService_deleteMultiple ids s) =
          Inr (length (filter (\<lambda>t. task_id t \<in> set ids) (tasks s)))
        \<and> tasks (snd (TaskService_deleteMultiple ids s)) =
            filter (\<lambda>t. task_id t \<notin> set ids) (tasks s))
   \<and> (distinct (map task_id (tasks sb)) \<and> id1 \<in> task_id ` set (tasks sb)
        \<and> id2 \<notin> task_id ` set (tasks sb) \<longrightarrow>
        fst (TaskService_deleteMultiple [id1, id2] sb) = Inr 1)"
proof -
  have general: "fst (TaskService_deleteMultiple ids s) =
          Inr (length (filter (\<lambda>t. task_id t \<in> set ids) (tasks s)))
        \<and> tasks (snd (TaskService_deleteMultiple ids s)) =
            filter (\<lambda>t. task_id t \<notin> set ids) (tasks s)" if "ids \<noteq> []" for ids s
    using that
    by (simp add: TaskService_deleteMultiple_def catchLog_def catchRollback_def
        deleteMultiple_transaction_def TaskRepository_deleteMultiple_def
        TransactionManager_defs Logger_defs Let_def fold_invalidate_fields
        length_filter_removed)
  have one: "fst (TaskService_deleteMultiple [id1, id2] sb) = Inr 1"
    if "distinct (map task_id (tasks sb))" "id1 \<in> task_id ` set (tasks sb)"
      "id2 \<notin> task_id ` set (tasks sb)"
  proof -
    have "filter (\<lambda>t. task_id t \<in> set [id1, id2]) (tasks sb)
          = filter (\<lambda>t. task_id t = id1) (tasks sb)"
      using that(3) by (intro filter_cong) auto
    then show ?thesis
      using general [of "[id1, id2]" sb] length_filter_distinct_key [OF that(1) that(2)]
      by simp
  qed
  show ?thesis
    using general one
    by (simp add: TaskService_deleteMultiple_def catchLog_def Logger_defs Let_def)
qed

theorem deleteMultiple_contract_witness:
  "[''id1'', ''id2''] \<noteq> []
   \<and> distinct (map task_id (tasks (exampleState\<lparr>tasks := [exampleTask]\<rparr>)))
   \<and> ''id1'' \<in> task_id ` set (tasks (exampleState\<lparr>tasks := [exampleTask]\<rparr>))
   \<and> ''id2'' \<notin> task_id ` set (tasks (exampleState\<lparr>tasks := [exampleTask]\<rparr>))
   \<and> fst (TaskService_deleteMultiple [''id1'', ''id2''] (exampleState\<lparr>tasks := [exampleTask]\<rparr>))
       = Inr 1
   \<and> tasks (snd (TaskService_deleteMultiple [''id1'', ''id2'']
        (exampleState\<lparr>tasks := [exampleTask]\<rparr>))) = []"
proof -
  let ?s = "exampleState\<lparr>tasks := [exampleTask]\<rparr>"
  have store: "tasks ?s = [exampleTask]" and ident: "task_id exampleTask = ''id1''"
    by (simp_all add: exampleTask_def)
  have hyps: "distinct (map task_id (tasks ?s)) \<and> ''id1'' \<in> task_id ` set (tasks ?s)
      \<and> ''id2'' \<notin> task_id ` set (tasks ?s)"
    by (simp add: store ident)
  show ?thesis
    using hyps store ident
      deleteMultiple_contract [of exampleState "[''id1'', ''id2'']" ?s ?s "''id1''" "''id2''"]
    by simp
qed

lemma getById_miss:
  assumes "cache s (''task:'' @ ident) = None"
  shows "fst (TaskService_getById g t ident s) =
           (case find (\<lambda>x. task_id x = ident) (tasks s) of
              None \<Rightarrow> Inl (NotFoundError ''Task not found'')
            | Some task \<Rightarrow> Inr task)"
    and "INFO ''Finding task by id'' \<in>
           set (drop (length (console s)) (console (snd (TaskService_getById g t ident s))))"
    and "find (\<lambda>x. task_id x = ident) (tasks s) = Some task \<Longrightarrow>
           cache (snd (TaskService_getById g t ident s)) (''task:'' @ ident) =
             Some \<lparr>data = task, expiry = t + defaultTTL\<rparr>"
  using assms
  by (auto simp: TaskService_getById_def catchLog_def CacheService_defs
      TaskRepository_findById_def Logger_defs Let_def split: option.splits)

text \<open>
  Claim C6. \<open>deleteByOwner\<close> fails with NotFound, and changes no task, when no user
  has the owner id. Otherwise it removes exactly the tasks of that owner, returns how
  many they were, and leaves the cache empty, whatever the entries were about: a
  \<open>getById\<close> that follows, for any id, reads the task store (it logs
  "Finding task by id"), returns the task the store has, and puts it into the cache again.
\<close>

theorem deleteByOwner_contract:
  "(owner \<notin> user_id ` set (users s) \<longrightarrow>
      fst (TaskService_deleteByOwner owner s) = Inl (NotFoundError ''Owner not found'')
      \<and> tasks (snd (TaskService_deleteByOwner owner s)) = tasks s)
   \<and> (owner' \<in> user_id ` set (users s') \<longrightarrow>
      fst (TaskService_deleteByOwner owner' s') =
        Inr (length (filter (\<lambda>t. ownerId t = owner') (tasks s')))
      \<and> tasks (snd (TaskService_deleteByOwner owner' s')) =
          filter (\<lambda>t. ownerId t \<noteq> owner') (tasks s')
      \<and> cache (snd (TaskService_deleteByOwner owner' s')) = Map.empty
      \<and> fst (TaskService_getById g t ident (snd (TaskService_deleteByOwner owner' s'))) =
          (case find (\<lambda>x. task_id x = ident)
                  (filter (\<lambda>t. ownerId t \<noteq> owner') (tasks s')) of
             None \<Rightarrow> Inl (NotFoundError ''Task not found'')
           | Some task \<Rightarrow> Inr task)
      \<and> INFO ''Finding task by id'' \<in>
          set (drop (length (console (snd (TaskService_deleteByOwner owner' s'))))
                 (console (snd (TaskService_getById g t ident
                    (snd (TaskService_deleteByOwner owner' s'))))))
      \<and> (find (\<lambda>x. task_id x = ident)
              (filter (\<lambda>t. ownerId t \<noteq> owner') (tasks s')) = Some task \<longrightarrow>
           cache (snd (TaskService_getById g t ident
                    (snd (TaskService_deleteByOwner owner' s')))) (''task:'' @ ident) =
             Some \<lparr>data = task, expiry = t + defaultTTL\<rparr>))"
proof (intro conjI impI)
  assume "owner \<notin> user_id ` set (users s)"
  then have none: "find (\<lambda>u. user_id u = owner) (users s) = None"
    by (force simp: find_None_iff)
  then show "fst (TaskService_deleteByOwner owner s) = Inl (NotFoundError ''Owner not found'')"
    and "tasks (snd (TaskService_deleteByOwner owner s)) = tasks s"
    by (simp_all add: TaskService_deleteByOwner_def catchLog_def UserRepository_findById_def
        Logger_defs Let_def)
next
  assume "owner' \<in> user_id ` set (users s')"
  then obtain u where some: "find (\<lambda>u. user_id u = owner') (users s') = Some u"
    by (cases "find (\<lambda>u. user_id u = owner') (users s')") (auto simp: find_None_iff)
  let ?s = "snd (TaskService_deleteByOwner owner' s')"
  show r: "fst (TaskService_deleteByOwner owner' s') =
        Inr (length (filter (\<lambda>t. ownerId t = owner') (tasks s')))"
    using some
    by (simp add: TaskService_deleteByOwner_def catchLog_def catchRollback_def
        deleteByOwner_transaction_def UserRepository_findById_def
        TaskRepository_deleteByOwner_def CacheService_clear_def TransactionManager_defs
        Logger_defs Let_def length_filter_removed)
  show ts: "tasks ?s = filter (\<lambda>t. ownerId t \<noteq> owner') (tasks s')"
    using some
    by (simp add: TaskService_deleteByOwner_def catchLog_def catchRollback_def
        deleteByOwner_transaction_def UserRepository_findById_def
        TaskRepository_deleteByOwner_def CacheService_clear_def TransactionManager_defs
        Logger_defs Let_def)
  show c: "cache ?s = Map.empty"
    using some
    by (simp add: TaskService_deleteByOwner_def catchLog_def catchRollback_def
        deleteByOwner_transaction_def UserRepository_findById_def
        TaskRepository_deleteByOwner_def CacheService_clear_def TransactionManager_defs
        Logger_defs Let_def)
  then have miss: "cache ?s (''task:'' @ ident) = None"
    by simp
  show "fst (TaskService_getById g t ident ?s) =
          (case find (\<lambda>x. task_id x = ident)
                  (filter (\<lambda>t. ownerId t \<noteq> owner') (tasks s')) of
             None \<Rightarrow> Inl (NotFoundError ''Task not found'')
           | Some task \<Rightarrow> Inr task)"
    using getById_miss(1) [OF miss] ts by simp
  show "INFO ''Finding task by id'' \<in>
          set (drop (length (console ?s)) (console (snd (TaskService_getById g t ident ?s))))"
    using getById_miss(2) [OF miss] .
  show "cache (snd (TaskService_getById g t ident ?s)) (''task:'' @ ident) =
          Some \<lparr>data = task, expiry = t + defaultTTL\<rparr>"
    if "find (\<lambda>x. task_id x = ident)
          (filter (\<lambda>t. ownerId t \<noteq> owner') (tasks s')) = Some task"
    using getById_miss(3) [OF miss] that ts by simp
qed

theorem deleteByOwner_contract_witness:
  "''W'' \<notin> user_id ` set (users cachedState)
   \<and> fst (TaskService_deleteByOwner ''W'' cachedState) = Inl (NotFoundError ''Owner not found'')
   \<and> ''U'' \<in> user_id ` set (users cachedState)
   \<and> cache cachedState ''task:id2'' = Some \<lparr>data = otherTask, expiry = 1700000060000\<rparr>
   \<and> fst (TaskService_deleteByOwner ''U'' cachedState) = Inr 1
   \<and> tasks (snd (TaskService_deleteByOwner ''U'' cachedState)) = [otherTask]
   \<and> cache (snd (TaskService_deleteByOwner ''U'' cachedState)) ''task:id2'' = None
   \<and> fst (TaskService_getById 1700000000001 1700000000002 ''id2''
           (snd (TaskService_deleteByOwner ''U'' cachedState))) = Inr otherTask
   \<and> cache (snd (TaskService_getById 1700000000001 1700000000002 ''id2''
           (snd (TaskService_deleteByOwner ''U'' cachedState)))) ''task:id2''
       = Some \<lparr>data = otherTask, expiry = 1700000060002\<rparr>"
proof -
  have store: "tasks cachedState = [exampleTask, otherTask]"
    and people: "users cachedState = [exampleUser]"
    and cached: "cache cachedState ''task:id2'' = Some \<lparr>data = otherTask, expiry = 1700000060000\<rparr>"
    by (simp_all add: cachedState_def exampleState_def)
  have fields: "ownerId exampleTask = ''U''" "ownerId otherTask = ''V''"
    "task_id exampleTask = ''id1''" "task_id otherTask = ''id2''" "user_id exampleUser = ''U''"
    by (simp_all add: example_defs)
  have absent: "''W'' \<notin> user_id ` set (users cachedState)"
    and present: "''U'' \<in> user_id ` set (users cachedState)"
    by (simp_all add: people fields)
  have found: "find (\<lambda>x. task_id x = ''id2'')
      (filter (\<lambda>t. ownerId t \<noteq> ''U'') (tasks cachedState)) = Some otherTask"
    by (simp add: store fields)
  show ?thesis
    using absent present cached found
      deleteByOwner_contract [of "''W''" cachedState "''U''" cachedState
        1700000000001 1700000000002 "''id2''" otherTask]
    by (simp add: store fields defaultTTL_def)
qed

section \<open>Reading a task\<close>

text \<open>
  Claim C7. Let a \<open>getById(id)\<close> have found nothing usable in the cache, loaded the
  task from the task store and cached it at time \<open>t1\<close>. A second \<open>getById(id)\<close>
  on a state with the same cache, at a time not after \<open>t1\<close> plus the default TTL,
  returns the same task and changes neither store nor cache; what it logs is the cache
  hit, with no read of the task store ("Finding task by id") in it.
\<close>

theorem getById_second_read_cached:
  assumes first: "TaskService_getById g1 t1 ident s = (Inr task, s1)"
    and miss: "fst (CacheService_get g1 (''task:'' @ ident) s) = None"
    and unchanged: "cache s2 = cache s1"
    and ttl: "g2 \<le> t1 + defaultTTL"
  shows "fst (TaskService_getById g2 t2 ident s2) = Inr task
    \<and> tasks (snd (TaskService_getById g2 t2 ident s2)) = tasks s2
    \<and> cache (snd (TaskService_getById g2 t2 ident s2)) = cache s2
    \<and> console (snd (TaskService_getById g2 t2 ident s2)) =
        console s2 @
          [INFO ''Entering getById task'', DEBUG (''Fetching task with id: '' @ ident),
           DEBUG (''Checking cache for key: '' @ ''task:'' @ ident),
           DEBUG (''Cache hit for key: '' @ ''task:'' @ ident),
           INFO ''Returning task from cache'']
    \<and> INFO ''Finding task by id'' \<notin>
        set (drop (length (console s2)) (console (snd (TaskService_getById g2 t2 ident s2))))"
proof -
  have stored: "cache s1 (''task:'' @ ident) = Some \<lparr>data = task, expiry = t1 + defaultTTL\<rparr>"
    using first miss
    by (auto simp: TaskService_getById_def catchLog_def CacheService_defs
        TaskRepository_findById_def Logger_defs Let_def split: option.splits if_splits)
  then have hit: "cache s2 (''task:'' @ ident) = Some \<lparr>data = task, expiry = t1 + defaultTTL\<rparr>"
    using unchanged by simp
  have run: "TaskService_getById g2 t2 ident s2 =
      (Inr task, s2\<lparr>console := console s2 @
          [INFO ''Entering getById task'', DEBUG (''Fetching task with id: '' @ ident),
           DEBUG (''Checking cache for key: '' @ ''task:'' @ ident),
           DEBUG (''Cache hit for key: '' @ ''task:'' @ ident),
           INFO ''Returning task from cache'']\<rparr>)"
    using hit ttl
    by (simp add: TaskService_getById_def catchLog_def CacheService_get_def Logger_defs Let_def)
  show ?thesis
    unfolding run by simp
qed

theorem getById_second_read_cached_witness:
  "TaskService_getById 1000 1000 ''id1'' (exampleState\<lparr>tasks := [exampleTask]\<rparr>) =
     (Inr exampleTask, snd (TaskService_getById 1000 1000 ''id1'' (exampleState\<lparr>tasks := [exampleTask]\<rparr>)))
   \<and> fst (CacheService_get 1000 (''task:'' @ ''id1'') (exampleState\<lparr>tasks := [exampleTask]\<rparr>)) = None
   \<and> 61000 \<le> 1000 + defaultTTL
   \<and> fst (TaskService_getById 61000 61000 ''id1''
        (snd (TaskService_getById 1000 1000 ''id1'' (exampleState\<lparr>tasks := [exampleTask]\<rparr>))))
      = Inr exampleTask
   \<and> INFO ''Finding task by id'' \<notin>
        set (drop (length (console
              (snd (TaskService_getById 1000 1000 ''id1'' (exampleState\<lparr>tasks := [exampleTask]\<rparr>)))))
          (console (snd (TaskService_getById 61000 61000 ''id1''
            (snd (TaskService_getById 1000 1000 ''id1'' (exampleState\<lparr>tasks := [exampleTask]\<rparr>)))))))"
proof -
  let ?s = "exampleState\<lparr>tasks := [exampleTask]\<rparr>"
  let ?s1 = "snd (TaskService_getById 1000 1000 ''id1'' ?s)"
  have miss: "fst (CacheService_get 1000 (''task:'' @ ''id1'') ?s) = None"
    by (simp add: CacheService_get_def Logger_defs exampleState_def Let_def)
  have "fst (TaskService_getById 1000 1000 ''id1'' ?s) = Inr exampleTask"
    by (simp add: TaskService_getById_def catchLog_def CacheService_defs
        TaskRepository_findById_def Logger_defs Let_def exampleState_def exampleTask_def)
  then have first: "TaskService_getById 1000 1000 ''id1'' ?s = (Inr exampleTask, ?s1)"
    by (simp add: prod_eq_iff)
  have ttl: "61000 \<le> 1000 + defaultTTL"
    by (simp add: defaultTTL_def)
  show ?thesis
    using first miss ttl
      getById_second_read_cached [OF first miss refl ttl, of 61000]
    by simp
qed

section \<open>The deadline\<close>

lemma update_validate_fails:
  "update_validate env dto = Some e \<Longrightarrow>
     fst (TaskService_update env ident dto s) = Inl e
     \<and> tasks (snd (TaskService_update env ident dto s)) = tasks s"
  by (simp add: TaskService_update_def catchLog_def Logger_defs Let_def)

lemma validateDeadline_error:
  "validateDeadline env dl = Some e \<Longrightarrow> \<exists>m. e = ValidationError m"
  by (auto simp: validateDeadline_def split: option.splits if_splits)

lemma create_validate_deadline:
  assumes "validateDeadline env (new_deadline dto) = Some e"
  shows "\<exists>m. create_validate env dto = Some (ValidationError m)"
  using assms validateDeadline_error [OF assms]
  by (auto simp: create_validate_def)

lemma update_validate_deadline:
  assumes "validateDeadline env (upd_deadline dto) = Some e"
  shows "\<exists>m. update_validate env dto = Some (ValidationError m)"
  using assms validateDeadline_error [OF assms]
  by (auto simp: update_validate_def)

lemma create_validate_deadline_ok:
  "create_validate env (dto\<lparr>new_deadline := None\<rparr>) = None \<Longrightarrow>
     validateDeadline env dl = None \<Longrightarrow>
     create_validate env (dto\<lparr>new_deadline := dl\<rparr>) = None"
  by (simp add: create_validate_def validateDeadline_def split: if_splits)

lemma update_validate_deadline_ok:
  "update_validate env (dto\<lparr>upd_deadline := None\<rparr>) = None \<Longrightarrow>
     validateDeadline env dl = None \<Longrightarrow>
     update_validate env (dto\<lparr>upd_deadline := dl\<rparr>) = None"
  by (simp add: update_validate_def validateDeadline_def split: if_splits)

lemma fiveYearsFromNow_later:
  "offsetsBounded (localTZA env) \<Longrightarrow> fiveYearsFromNow env = Some f \<Longrightarrow>
     clockFiveYears env + 1000 \<le> f"
  using setFullYear_five_later [of "localTZA env" "clockFiveYears env" f]
  by (simp add: fiveYearsFromNow_def Let_def msPerDay_def)

lemma example_fiveYears: "fiveYearsFromNow exampleEnv = Some 1857852800000"
  by code_simp

text \<open>
  With daylight saving: from noon of 2024-03-10 in New York, daylight saving time, to
  noon of 2029-03-10, standard time.
\<close>

lemma newYork_fiveYears: "fiveYearsFromNow newYorkEnv = Some 1867856400000"
  by code_simp

lemma newYork_bounded: "offsetsBounded (localTZA newYorkEnv)"
  by (simp add: offsetsBounded_def newYorkEnv_def newYork_def msPerDay_def)

text \<open>
  Claim C1, as the code has it. In \<open>create\<close> and in \<open>update\<close>, for a dto with a
  deadline: an invalid date is rejected, and a valid one is accepted exactly when it is
  not before the clock value it is compared with and not after \<open>fiveYearsFromNow\<close>. So
  a deadline before the clock value is rejected; a deadline after \<open>fiveYearsFromNow\<close>
  is rejected, so one that is a second after it; and, the offsets of the time zone being
  less than a day and the clock not running backwards between the two readings, a
  deadline equal to the clock value is accepted and so is one a second after it. A
  deadline that the validation rejects makes \<open>create\<close> and \<open>update\<close> fail with a
  Validation error, and one that it accepts leaves the validation of a dto that is valid
  without a deadline as it is.
\<close>

theorem deadline_validation:
  "validateDeadline env (Some None) = Some (ValidationError ''Invalid deadline date format'')
   \<and> (validateDeadline env (Some (Some d)) = None) =
       (clockDeadline env \<le> d \<and> (case fiveYearsFromNow env of None \<Rightarrow> True | Some g \<Rightarrow> d \<le> g))
   \<and> (d1 < clockDeadline env \<longrightarrow>
        validateDeadline env (Some (Some d1)) =
          Some (ValidationError ''Deadline cannot be in the past''))
   \<and> (fiveYearsFromNow env = Some f \<and> d2 > f \<longrightarrow>
        validateDeadline env (Some (Some d2)) \<in>
          {Some (ValidationError ''Deadline cannot be in the past''),
           Some (ValidationError ''Deadline cannot be more than 5 years in the future'')})
   \<and> (fiveYearsFromNow env = Some f \<and> clockDeadline env \<le> f + 1000 \<longrightarrow>
        validateDeadline env (Some (Some (f + 1000))) =
          Some (ValidationError ''Deadline cannot be more than 5 years in the future''))
   \<and> (offsetsBounded (localTZA env) \<and> clockDeadline env \<le> clockFiveYears env \<longrightarrow>
        validateDeadline env (Some (Some (clockDeadline env))) = None
        \<and> validateDeadline env (Some (Some (clockDeadline env + 1000))) = None)
   \<and> (validateDeadline env (new_deadline cdto) = Some e \<longrightarrow>
        (\<exists>m. fst (TaskService_create env cdto s) = Inl (ValidationError m)))
   \<and> (validateDeadline env (upd_deadline udto) = Some e' \<longrightarrow>
        (\<exists>m. fst (TaskService_update env ident udto s') = Inl (ValidationError m)))
   \<and> (create_validate env (cdto'\<lparr>new_deadline := None\<rparr>) = None
        \<and> validateDeadline env dl = None \<longrightarrow>
        create_validate env (cdto'\<lparr>new_deadline := dl\<rparr>) = None)
   \<and> (update_validate env (udto'\<lparr>upd_deadline := None\<rparr>) = None
        \<and> validateDeadline env dl' = None \<longrightarrow>
        update_validate env (udto'\<lparr>upd_deadline := dl'\<rparr>) = None)"
proof (intro conjI impI)
  show "validateDeadline env (Some None) = Some (ValidationError ''Invalid deadline date format'')"
    by (simp add: validateDeadline_def)
  show "(validateDeadline env (Some (Some d)) = None) =
       (clockDeadline env \<le> d \<and> (case fiveYearsFromNow env of None \<Rightarrow> True | Some g \<Rightarrow> d \<le> g))"
    by (auto simp: validateDeadline_def split: option.splits)
  show "validateDeadline env (Some (Some d1)) =
          Some (ValidationError ''Deadline cannot be in the past'')"
    if "d1 < clockDeadline env"
    using that by (simp add: validateDeadline_def)
  show "validateDeadline env (Some (Some d2)) \<in>
          {Some (ValidationError ''Deadline cannot be in the past''),
           Some (ValidationError ''Deadline cannot be more than 5 years in the future'')}"
    if "fiveYearsFromNow env = Some f \<and> d2 > f"
    using that by (simp add: validateDeadline_def)
  show "validateDeadline env (Some (Some (f + 1000))) =
          Some (ValidationError ''Deadline cannot be more than 5 years in the future'')"
    if "fiveYearsFromNow env = Some f \<and> clockDeadline env \<le> f + 1000"
    using that by (simp add: validateDeadline_def)
  show "validateDeadline env (Some (Some (clockDeadline env))) = None"
    and "validateDeadline env (Some (Some (clockDeadline env + 1000))) = None"
    if "offsetsBounded (localTZA env) \<and> clockDeadline env \<le> clockFiveYears env"
  proof -
    have "validateDeadline env (Some (Some (clockDeadline env))) = None
      \<and> validateDeadline env (Some (Some (clockDeadline env + 1000))) = None"
    proof (cases "fiveYearsFromNow env")
      case None
      then show ?thesis by (simp add: validateDeadline_def)
    next
      case (Some g)
      with that fiveYearsFromNow_later [of env g] show ?thesis
        by (simp add: validateDeadline_def)
    qed
    then show "validateDeadline env (Some (Some (clockDeadline env))) = None"
      and "validateDeadline env (Some (Some (clockDeadline env + 1000))) = None"
      by simp_all
  qed
  show "\<exists>m. fst (TaskService_create env cdto s) = Inl (ValidationError m)"
    if "validateDeadline env (new_deadline cdto) = Some e"
    using create_validate_deadline [OF that] create_validate_fails by blast
  show "\<exists>m. fst (TaskService_update env ident udto s') = Inl (ValidationError m)"
    if "validateDeadline env (upd_deadline udto) = Some e'"
    using update_validate_deadline [OF that] update_validate_fails by blast
  show "create_validate env (cdto'\<lparr>new_deadline := dl\<rparr>) = None"
    if "create_validate env (cdto'\<lparr>new_deadline := None\<rparr>) = None
        \<and> validateDeadline env dl = None"
    using that create_validate_deadline_ok by blast
  show "update_validate env (udto'\<lparr>upd_deadline := dl'\<rparr>) = None"
    if "update_validate env (udto'\<lparr>upd_deadline := None\<rparr>) = None
        \<and> validateDeadline env dl' = None"
    using that update_validate_deadline_ok by blast
qed

theorem deadline_validation_witness:
  "1710086399999 < clockDeadline newYorkEnv
   \<and> validateDeadline newYorkEnv (Some (Some 1710086399999)) =
       Some (ValidationError ''Deadline cannot be in the past'')
   \<and> fiveYearsFromNow newYorkEnv = Some 1867856400000
   \<and> 1867856400001 > (1867856400000 :: int)
   \<and> validateDeadline newYorkEnv (Some (Some 1867856400001)) =
       Some (ValidationError ''Deadline cannot be more than 5 years in the future'')
   \<and> clockDeadline newYorkEnv \<le> 1867856400000 + 1000
   \<and> validateDeadline newYorkEnv (Some (Some (1867856400000 + 1000))) =
       Some (ValidationError ''Deadline cannot be more than 5 years in the future'')
   \<and> validateDeadline newYorkEnv (Some (Some 1867856400000)) = None
   \<and> offsetsBounded (localTZA newYorkEnv)
   \<and> clockDeadline newYorkEnv \<le> clockFiveYears newYorkEnv
   \<and> validateDeadline newYorkEnv (Some (Some (clockDeadline newYorkEnv))) = None
   \<and> validateDeadline newYorkEnv (Some (Some (clockDeadline newYorkEnv + 1000))) = None
   \<and> validateDeadline newYorkEnv (new_deadline (exampleDTO\<lparr>new_deadline := Some None\<rparr>)) =
       Some (ValidationError ''Invalid deadline date format'')
   \<and> isl (fst (TaskService_create newYorkEnv (exampleDTO\<lparr>new_deadline := Some None\<rparr>)
        exampleState))
   \<and> validateDeadline newYorkEnv
        (upd_deadline (exampleUpdate\<lparr>upd_deadline := Some (Some 1710086399999)\<rparr>)) =
       Some (ValidationError ''Deadline cannot be in the past'')
   \<and> isl (fst (TaskService_update newYorkEnv ''id1''
        (exampleUpdate\<lparr>upd_deadline := Some (Some 1710086399999)\<rparr>) cachedState))
   \<and> create_validate newYorkEnv (exampleDTO\<lparr>new_deadline := None\<rparr>) = None
   \<and> create_validate newYorkEnv
        (exampleDTO\<lparr>new_deadline := Some (Some (clockDeadline newYorkEnv))\<rparr>) = None
   \<and> update_validate newYorkEnv (exampleUpdate\<lparr>upd_deadline := None\<rparr>) = None
   \<and> update_validate newYorkEnv
        (exampleUpdate\<lparr>upd_deadline := Some (Some (clockDeadline newYorkEnv))\<rparr>) = None"
proof -
  have now: "clockDeadline newYorkEnv = 1710086400000"
    by (simp add: newYorkEnv_def)
  have past: "1710086399999 < clockDeadline newYorkEnv"
    and bound: "clockDeadline newYorkEnv \<le> 1867856400000 + 1000"
    and clocks: "clockDeadline newYorkEnv \<le> clockFiveYears newYorkEnv"
    by (simp_all add: newYorkEnv_def)
  have notPast: "validateDeadline newYorkEnv (Some (Some 1867856400001)) \<noteq>
       Some (ValidationError ''Deadline cannot be in the past'')"
    by (simp add: validateDeadline_def newYork_fiveYears now)
  have invalid:
    "validateDeadline newYorkEnv (new_deadline (exampleDTO\<lparr>new_deadline := Some None\<rparr>)) =
       Some (ValidationError ''Invalid deadline date format'')"
    by (simp add: validateDeadline_def)
  have updPast: "validateDeadline newYorkEnv
        (upd_deadline (exampleUpdate\<lparr>upd_deadline := Some (Some 1710086399999)\<rparr>)) =
       Some (ValidationError ''Deadline cannot be in the past'')"
    by (simp add: validateDeadline_def now)
  have plain: "create_validate newYorkEnv (exampleDTO\<lparr>new_deadline := None\<rparr>) = None"
    by (simp add: create_validate_def validateDeadline_def validatePriority_def trim_def
        isWhiteSpace_def exampleDTO_def)
  have plainUpd: "update_validate newYorkEnv (exampleUpdate\<lparr>upd_deadline := None\<rparr>) = None"
    by (simp add: update_validate_def validateDeadline_def validatePriority_def
        exampleUpdate_def)
  note inst = deadline_validation [where env = newYorkEnv and d = 1867856400000
      and ?d1.0 = 1710086399999 and f = 1867856400000 and ?d2.0 = 1867856400001
      and cdto = "exampleDTO\<lparr>new_deadline := Some None\<rparr>"
      and e = "ValidationError ''Invalid deadline date format''" and s = exampleState
      and udto = "exampleUpdate\<lparr>upd_deadline := Some (Some 1710086399999)\<rparr>"
      and e' = "ValidationError ''Deadline cannot be in the past''" and ident = "''id1''"
      and s' = cachedState
      and cdto' = exampleDTO and dl = "Some (Some (clockDeadline newYorkEnv))"
      and udto' = exampleUpdate and dl' = "Some (Some (clockDeadline newYorkEnv))"]
  from inst invalid
  have c: "\<exists>m. fst (TaskService_create newYorkEnv (exampleDTO\<lparr>new_deadline := Some None\<rparr>)
        exampleState) = Inl (ValidationError m)"
    by blast
  from inst updPast
  have u: "\<exists>m. fst (TaskService_update newYorkEnv ''id1''
        (exampleUpdate\<lparr>upd_deadline := Some (Some 1710086399999)\<rparr>) cachedState)
        = Inl (ValidationError m)"
    by blast
  from inst past
  have a: "validateDeadline newYorkEnv (Some (Some 1710086399999)) =
       Some (ValidationError ''Deadline cannot be in the past'')"
    by blast
  from inst newYork_fiveYears notPast
  have b: "validateDeadline newYorkEnv (Some (Some 1867856400001)) =
       Some (ValidationError ''Deadline cannot be more than 5 years in the future'')"
    by simp
  from inst newYork_fiveYears bound
  have b': "validateDeadline newYorkEnv (Some (Some (1867856400000 + 1000))) =
       Some (ValidationError ''Deadline cannot be more than 5 years in the future'')"
    by blast
  from inst newYork_fiveYears now
  have last: "validateDeadline newYorkEnv (Some (Some 1867856400000)) = None"
    by simp
  from inst newYork_bounded clocks
  have d: "validateDeadline newYorkEnv (Some (Some (clockDeadline newYorkEnv))) = None
      \<and> validateDeadline newYorkEnv (Some (Some (clockDeadline newYorkEnv + 1000))) = None"
    by blast
  from inst plain d
  have k: "create_validate newYorkEnv
        (exampleDTO\<lparr>new_deadline := Some (Some (clockDeadline newYorkEnv))\<rparr>) = None"
    by blast
  from inst plainUpd d
  have k': "update_validate newYorkEnv
        (exampleUpdate\<lparr>upd_deadline := Some (Some (clockDeadline newYorkEnv))\<rparr>) = None"
    by blast
  from c u have "isl (fst (TaskService_create newYorkEnv (exampleDTO\<lparr>new_deadline := Some None\<rparr>)
        exampleState))"
    and "isl (fst (TaskService_update newYorkEnv ''id1''
        (exampleUpdate\<lparr>upd_deadline := Some (Some 1710086399999)\<rparr>) cachedState))"
    by auto
  with past bound clocks invalid updPast a b b' d last k k' plain plainUpd newYork_fiveYears
    newYork_bounded
  show ?thesis
    by simp
qed

text \<open>
  Claim C1 as stated fails: a deadline equal to the current time passes the validation,
  and \<open>create\<close> stores the task.
\<close>

theorem deadline_now_counterexample:
  "validateDeadline exampleEnv (Some (Some (clockDeadline exampleEnv))) = None
   \<and> fst (TaskService_create exampleEnv
          (exampleDTO\<lparr>new_deadline := Some (Some 1700000000000)\<rparr>) exampleState) =
       Inr (exampleTask\<lparr>deadline := Some (Some 1700000000000)\<rparr>)"
  by code_simp

section \<open>Similar titles\<close>

text \<open>
  Claim C2, as the code has it. From a task store with no task of owner \<open>U\<close>, a valid
  \<open>create\<close> of "Write report" for \<open>U\<close> succeeds. A valid \<open>create\<close> for \<open>U\<close> that
  follows fails with the Validation error of the duplicate check exactly when its
  trimmed title, in lower case, occurs in "write report"; otherwise it succeeds. The
  check asks whether the stored title includes the new one, not the other way round.
\<close>

theorem similar_title_substring:
  assumes "\<forall>t\<in>set (tasks s). ownerId t \<noteq> U"
    and "U \<in> user_id ` set (users s)"
    and "new_title dto = ''Write report''" and "new_ownerId dto = U"
    and "create_validate env dto = None"
    and "new_ownerId dto' = U" and "create_validate env' dto' = None"
  shows "fst (TaskService_create env dto s) = Inr (newTask env dto)
    \<and> fst (TaskService_create env' dto' (snd (TaskService_create env dto s))) =
        (if includesStr ''write report'' (toLowerCase (trim (new_title dto')))
         then Inl (ValidationError ''A task with similar title already exists for this user'')
         else Inr (newTask env' dto'))"
proof -
  let ?s1 = "snd (TaskService_create env dto s)"
  have owner: "new_ownerId dto \<in> user_id ` set (users s)"
    using assms(2,4) by simp
  have fresh: "\<forall>t\<in>set (tasks s). ownerId t = new_ownerId dto \<longrightarrow>
      \<not> includesStr (toLowerCase (title t)) (toLowerCase (trim (new_title dto)))"
    using assms(1,4) by simp
  note first = create_succeeds [OF assms(5) owner fresh]
  have lower: "toLowerCase (title (newTask env dto)) = ''write report''"
    by (simp add: newTask_def assms(3) trim_def isWhiteSpace_def toLowerCase_def
        toLowerCaseChar_def)
  have owner1: "new_ownerId dto' \<in> user_id ` set (users ?s1)"
    using assms(2,6) first(3) by simp
  have mine: "ownerId (newTask env dto) = new_ownerId dto'"
    by (simp add: newTask_def assms(4,6))
  have second: "fst (TaskService_create env' dto' ?s1) =
        (if includesStr ''write report'' (toLowerCase (trim (new_title dto')))
         then Inl (ValidationError ''A task with similar title already exists for this user'')
         else Inr (newTask env' dto'))"
  proof (cases "includesStr ''write report'' (toLowerCase (trim (new_title dto')))")
    case True
    have "newTask env dto \<in> set (tasks ?s1)"
      by (simp add: first(2))
    from create_similar_fails(1) [OF assms(7) owner1 this mine] True lower
    show ?thesis by simp
  next
    case False
    have "\<forall>t\<in>set (tasks ?s1). ownerId t = new_ownerId dto' \<longrightarrow>
      \<not> includesStr (toLowerCase (title t)) (toLowerCase (trim (new_title dto')))"
      using assms(1,6) False lower by (auto simp: first(2))
    from create_succeeds(1) [OF assms(7) owner1 this] False
    show ?thesis by simp
  qed
  show ?thesis
    using first(1) second by simp
qed

theorem similar_title_substring_witness:
  "tasks exampleState = []
   \<and> ''U'' \<in> user_id ` set (users exampleState)
   \<and> new_title exampleDTO = ''Write report'' \<and> new_ownerId exampleDTO = ''U''
   \<and> create_validate exampleEnv exampleDTO = None
   \<and> new_ownerId (exampleDTO\<lparr>new_title := ''REPORT''\<rparr>) = ''U''
   \<and> create_validate (exampleEnv\<lparr>randomUUID := ''id2''\<rparr>)
        (exampleDTO\<lparr>new_title := ''REPORT''\<rparr>) = None
   \<and> includesStr ''write report''
        (toLowerCase (trim (new_title (exampleDTO\<lparr>new_title := ''REPORT''\<rparr>))))
   \<and> fst (TaskService_create exampleEnv exampleDTO exampleState) = Inr exampleTask
   \<and> fst (TaskService_create (exampleEnv\<lparr>randomUUID := ''id2''\<rparr>)
          (exampleDTO\<lparr>new_title := ''REPORT''\<rparr>)
          (snd (TaskService_create exampleEnv exampleDTO exampleState))) =
       Inl (ValidationError ''A task with similar title already exists for this user'')"
proof -
  let ?env = "exampleEnv\<lparr>randomUUID := ''id2''\<rparr>"
  let ?dto = "exampleDTO\<lparr>new_title := ''REPORT''\<rparr>"
  have none: "\<forall>t\<in>set (tasks exampleState). ownerId t \<noteq> ''U''"
    and user: "''U'' \<in> user_id ` set (users exampleState)"
    by (simp_all add: exampleState_def exampleUser_def)
  have first: "new_title exampleDTO = ''Write report''" "new_ownerId exampleDTO = ''U''"
    and owner: "new_ownerId ?dto = ''U''"
    by (simp_all add: exampleDTO_def)
  have valid: "create_validate exampleEnv exampleDTO = None"
    and valid': "create_validate ?env ?dto = None"
    by (simp_all add: validate_defs exampleDTO_def)
  have sub: "includesStr ''write report'' (toLowerCase (trim (new_title ?dto)))"
    by (simp add: trim_def isWhiteSpace_def toLowerCase_def toLowerCaseChar_def)
  have built: "newTask exampleEnv exampleDTO = exampleTask"
    by (simp add: newTask_def example_defs trim_def isWhiteSpace_def)
  have empty: "tasks exampleState = []"
    by (simp add: exampleState_def)
  show ?thesis
    using empty user first owner valid valid' sub
      similar_title_substring [OF none user first valid owner valid']
    unfolding built by simp
qed

text \<open>
  Claim C2 as stated fails: "report writing" does not occur in "write report", and the
  second \<open>create\<close> succeeds.
\<close>

theorem report_writing_counterexample:
  "fst (TaskService_create exampleEnv exampleDTO exampleState) = Inr exampleTask
   \<and> fst (TaskService_create (exampleEnv\<lparr>randomUUID := ''id2''\<rparr>)
          (exampleDTO\<lparr>new_title := ''report writing''\<rparr>)
          (snd (TaskService_create exampleEnv exampleDTO exampleState))) =
       Inr (exampleTask\<lparr>task_id := ''id2'', title := ''report writing''\<rparr>)"
  by code_simp

text \<open>
  Case is folded beyond ASCII: after a \<open>create\<close> of a title that starts with
  \<open>U+00C9\<close>, a \<open>create\<close> of the same title in small letters, starting with
  \<open>U+00E9\<close>, fails.
\<close>

lemma latin1_title_rejected:
  "fst (TaskService_create (exampleEnv\<lparr>randomUUID := ''id2''\<rparr>)
          (exampleDTO\<lparr>new_title := [CHR 0xE9, CHR ''t'', CHR ''u'', CHR ''d'', CHR ''e'']\<rparr>)
          (snd (TaskService_create exampleEnv
             (exampleDTO\<lparr>new_title := [CHR 0xC9, CHR ''T'', CHR ''U'', CHR ''D'', CHR ''E'']\<rparr>)
             exampleState))) =
     Inl (ValidationError ''A task with similar title already exists for this user'')"
  by code_simp

section \<open>Titles in reachable states\<close>

lemma startsWith_refl: "startsWith s s"
  by (induction s) simp_all

lemma includesStr_refl: "includesStr s s"
  by (cases s) (simp_all add: startsWith_refl)

lemma dropWhile_unchanged: "xs = [] \<or> \<not> P (hd xs) \<Longrightarrow> dropWhile P xs = xs"
  by (cases xs) auto

lemma dropWhile_head: "dropWhile P xs = [] \<or> \<not> P (hd (dropWhile P xs))"
  using hd_dropWhile [of P xs] by blast

lemma rev_dropWhile_rev_head:
  "xs = [] \<or> \<not> P (hd xs) \<Longrightarrow>
     rev (dropWhile Q (rev xs)) = [] \<or> \<not> P (hd (rev (dropWhile Q (rev xs))))"
proof -
  assume h: "xs = [] \<or> \<not> P (hd xs)"
  obtain n where n: "dropWhile Q (rev xs) = drop n (rev xs)"
    using dropWhile_eq_drop by blast
  have "rev (dropWhile Q (rev xs)) = take (length xs - n) xs"
    unfolding n by (simp add: rev_drop)
  then show ?thesis
    using h by (cases "length xs - n") (auto simp: hd_take)
qed

lemma trim_idem: "trim (trim s) = trim s"
proof -
  let ?u = "dropWhile isWhiteSpace s"
  have "trim s = [] \<or> \<not> isWhiteSpace (hd (trim s))"
    unfolding trim_def by (rule rev_dropWhile_rev_head) (rule dropWhile_head)
  then have "dropWhile isWhiteSpace (trim s) = trim s"
    by (rule dropWhile_unchanged)
  then have "trim (trim s) = rev (dropWhile isWhiteSpace (rev (trim s)))"
    by (simp add: trim_def)
  also have "\<dots> = trim s"
    by (simp add: trim_def)
  finally show ?thesis .
qed

lemma catchRollback_tasks:
  "tasks (snd (catchRollback body s)) = tasks (snd (body s))"
  by (simp add: catchRollback_def TransactionManager_rollback_def Logger_defs
      split: prod.splits sum.splits)

lemma catchLog_tasks:
  "tasks (snd (catchLog message body s)) = tasks (snd (body s))"
  by (simp add: catchLog_def Logger_defs split: prod.splits sum.splits)


lemma findIndex_Some:
  "findIndex P xs = Some i \<Longrightarrow> i < length xs \<and> P (xs ! i) \<and> find P xs = Some (xs ! i)"
proof (induction xs arbitrary: i)
  case Nil
  then show ?case by simp
next
  case (Cons x xs)
  then show ?case by (cases "P x") auto
qed

lemma spread_fields:
  "task_id (spread t u) = task_id t" "ownerId (spread t u) = ownerId t"
  "title (spread t (updateData dto)) =
     (case upd_title dto of None \<Rightarrow> title t | Some x \<Rightarrow> trim x)"
  by (simp_all add: spread_def updateData_def split: option.splits)

text \<open>What an operation does to the task store.\<close>

lemma create_tasks:
  "tasks (snd (TaskService_create env dto s)) = tasks s
   \<or> (tasks (snd (TaskService_create env dto s)) = tasks s @ [newTask env dto]
      \<and> (\<forall>t\<in>set (tasks s). ownerId t = new_ownerId dto \<longrightarrow>
            \<not> includesStr (toLowerCase (title t)) (toLowerCase (trim (new_title dto)))))"
proof (cases "create_validate env dto")
  case (Some e)
  then show ?thesis using create_validate_fails by blast
next
  case None
  then show ?thesis
    by (auto simp: TaskService_create_def catchLog_tasks catchRollback_tasks
        create_transaction_def UserRepository_findById_def
        TaskRepository_findByOwnerAndTitlePattern_def TaskRepository_save_def
        TransactionManager_defs Logger_defs Let_def filter_empty_conv
        split: option.splits if_splits)
qed

lemma update_transaction_tasks:
  "tasks (snd (update_transaction ident dto s)) = tasks s
   \<or> (\<exists>i. i < length (tasks s) \<and> task_id (tasks s ! i) = ident
        \<and> tasks (snd (update_transaction ident dto s)) =
            (tasks s)[i := spread (tasks s ! i) (updateData dto)]
        \<and> (\<forall>t. upd_title dto = Some t \<longrightarrow>
              (\<forall>b\<in>set (tasks s). ownerId b = ownerId (tasks s ! i) \<and> task_id b \<noteq> ident \<longrightarrow>
                 \<not> includesStr (toLowerCase (title b)) (toLowerCase (trim t)))))"
proof (cases "findIndex (\<lambda>t. task_id t = ident) (tasks s)")
  case None
  then show ?thesis
    by (auto simp: update_transaction_def TaskRepository_findById_def update_similar_def
        TaskRepository_findByOwnerAndTitlePattern_def TaskRepository_update_def
        CacheService_invalidate_def TransactionManager_commit_def Logger_defs Let_def
        split: option.splits if_splits prod.splits sum.splits)
next
  case (Some i)
  note idx = findIndex_Some [OF Some]
  show ?thesis
  proof (cases "fst (update_similar ident dto (tasks s ! i)
      (Logger_info ''Finding task by id'' s))")
    case (Inl e)
    then show ?thesis
      using idx Some
      by (auto simp: update_transaction_def TaskRepository_findById_def update_similar_def
          TaskRepository_findByOwnerAndTitlePattern_def Logger_defs Let_def
          split: option.splits if_splits prod.splits sum.splits)
  next
    case (Inr u)
    then have checked: "\<forall>t. upd_title dto = Some t \<longrightarrow>
        (\<forall>b\<in>set (tasks s). ownerId b = ownerId (tasks s ! i) \<and> task_id b \<noteq> ident \<longrightarrow>
           \<not> includesStr (toLowerCase (title b)) (toLowerCase (trim t)))"
      by (auto simp: update_similar_def TaskRepository_findByOwnerAndTitlePattern_def
          Logger_defs Let_def filter_empty_conv split: option.splits if_splits)
    have "tasks (snd (update_transaction ident dto s)) =
            (tasks s)[i := spread (tasks s ! i) (updateData dto)]"
      using idx Some Inr
      by (auto simp: update_transaction_def TaskRepository_findById_def update_similar_def
          TaskRepository_findByOwnerAndTitlePattern_def TaskRepository_update_def
          CacheService_invalidate_def TransactionManager_commit_def Logger_defs Let_def
          split: option.splits if_splits prod.splits sum.splits)
    with idx checked show ?thesis by blast
  qed
qed

lemma update_tasks:
  "tasks (snd (TaskService_update env ident dto s)) = tasks s
   \<or> (\<exists>i. i < length (tasks s) \<and> task_id (tasks s ! i) = ident
        \<and> tasks (snd (TaskService_update env ident dto s)) =
            (tasks s)[i := spread (tasks s ! i) (updateData dto)]
        \<and> (\<forall>t. upd_title dto = Some t \<longrightarrow>
              (\<forall>b\<in>set (tasks s). ownerId b = ownerId (tasks s ! i) \<and> task_id b \<noteq> ident \<longrightarrow>
                 \<not> includesStr (toLowerCase (title b)) (toLowerCase (trim t)))))"
proof (cases "update_validate env dto")
  case (Some e)
  then show ?thesis using update_validate_fails by blast
next
  case None
  let ?s3 = "TransactionManager_begin (Logger_debug ''Validating update data''
      (Logger_debug (''Updating task with id: '' @ ident)
        (Logger_info ''Entering update task'' s)))"
  have same: "tasks ?s3 = tasks s"
    by (simp add: TransactionManager_begin_def Logger_defs)
  have "tasks (snd (TaskService_update env ident dto s)) =
      tasks (snd (update_transaction ident dto ?s3))"
    using None
    by (simp add: TaskService_update_def catchLog_tasks catchRollback_tasks Let_def)
  then show ?thesis
    using update_transaction_tasks [of ident dto ?s3] unfolding same by simp
qed

lemma delete_tasks:
  "tasks (snd (TaskService_delete ident s)) = filter (\<lambda>t. task_id t \<noteq> ident) (tasks s)"
  by (simp add: TaskService_delete_def catchLog_tasks TaskRepository_delete_def
      CacheService_invalidate_def Logger_defs Let_def)

lemma deleteByOwner_tasks:
  "\<exists>P. tasks (snd (TaskService_deleteByOwner owner s)) = filter P (tasks s)"
proof (cases "find (\<lambda>u. user_id u = owner) (users s)")
  case None
  then have "tasks (snd (TaskService_deleteByOwner owner s)) = filter (\<lambda>t. True) (tasks s)"
    by (simp add: TaskService_deleteByOwner_def catchLog_tasks UserRepository_findById_def
        Logger_defs Let_def)
  then show ?thesis by blast
next
  case (Some u)
  then have "tasks (snd (TaskService_deleteByOwner owner s)) =
      filter (\<lambda>t. ownerId t \<noteq> owner) (tasks s)"
    by (simp add: TaskService_deleteByOwner_def catchLog_tasks catchRollback_tasks
        deleteByOwner_transaction_def UserRepository_findById_def
        TaskRepository_deleteByOwner_def CacheService_clear_def TransactionManager_defs
        Logger_defs Let_def)
  then show ?thesis by blast
qed

lemma deleteMultiple_tasks:
  "\<exists>P. tasks (snd (TaskService_deleteMultiple ids s)) = filter P (tasks s)"
proof (cases "ids = []")
  case True
  then have "tasks (snd (TaskService_deleteMultiple ids s)) = filter (\<lambda>t. True) (tasks s)"
    by (simp add: TaskService_deleteMultiple_def catchLog_tasks Logger_defs Let_def)
  then show ?thesis by blast
next
  case False
  then have "tasks (snd (TaskService_deleteMultiple ids s)) =
      filter (\<lambda>t. task_id t \<notin> set ids) (tasks s)"
    by (simp add: TaskService_deleteMultiple_def catchLog_tasks catchRollback_tasks
        deleteMultiple_transaction_def TaskRepository_deleteMultiple_def
        TransactionManager_defs Logger_defs Let_def fold_invalidate_fields)
  then show ?thesis by blast
qed

lemma getById_tasks:
  "tasks (snd (TaskService_getById nowGet nowSet ident s)) = tasks s"
  by (simp add: TaskService_getById_def catchLog_tasks CacheService_defs
      TaskRepository_findById_def Logger_defs Let_def split: option.splits)

lemma sameTitle_trimmed:
  assumes "trim (title a) = title a" and "trim (title b) = title b"
    and "ownerId a = ownerId b \<longrightarrow>
           \<not> includesStr (toLowerCase (title a)) (toLowerCase (title b))"
  shows "\<not> sameTitle a b" and "\<not> sameTitle b a"
  using assms includesStr_refl [of "toLowerCase (title b)"]
  by (auto simp: sameTitle_def)

lemma storeInvariant_filter:
  "storeInvariant ts \<Longrightarrow> storeInvariant (filter P ts)"
  by (auto simp: storeInvariant_def noEqualTitles_def distinct_map_filter)

lemma storeInvariant_append:
  assumes inv: "storeInvariant ts"
    and fresh: "task_id n \<notin> task_id ` set ts"
    and trimmed: "trim (title n) = title n"
    and check: "\<forall>t\<in>set ts. ownerId t = ownerId n \<longrightarrow>
        \<not> includesStr (toLowerCase (title t)) (toLowerCase (title n))"
  shows "storeInvariant (ts @ [n])"
proof -
  have ids: "distinct (map task_id (ts @ [n]))"
    using inv fresh by (simp add: storeInvariant_def)
  have titles: "\<forall>t\<in>set (ts @ [n]). trim (title t) = title t"
    using inv trimmed by (simp add: storeInvariant_def)
  have new: "\<not> sameTitle t n \<and> \<not> sameTitle n t" if "t \<in> set ts" for t
    using sameTitle_trimmed [of t n] that inv trimmed check
    by (simp add: storeInvariant_def)
  have "noEqualTitles (ts @ [n])"
    using inv new by (auto simp: storeInvariant_def noEqualTitles_def)
  with ids titles show ?thesis
    by (simp add: storeInvariant_def)
qed

lemma storeInvariant_update:
  assumes inv: "storeInvariant ts" and i: "i < length ts"
    and same_id: "task_id t' = task_id (ts ! i)" and same_owner: "ownerId t' = ownerId (ts ! i)"
    and trimmed: "trim (title t') = title t'"
    and check: "title t' = title (ts ! i) \<or>
      (\<forall>b\<in>set ts. ownerId b = ownerId (ts ! i) \<and> task_id b \<noteq> task_id (ts ! i) \<longrightarrow>
         \<not> includesStr (toLowerCase (title b)) (toLowerCase (title t')))"
  shows "storeInvariant (ts[i := t'])"
proof -
  have old: "ts ! i \<in> set ts"
    using i by simp
  have "map task_id (ts[i := t']) = map task_id ts"
    using i same_id by (simp add: map_update list_update_same_conv)
  then have ids: "distinct (map task_id (ts[i := t']))"
    using inv by (simp add: storeInvariant_def)
  have members: "set (ts[i := t']) \<subseteq> insert t' (set ts)"
    by (rule set_update_subset_insert)
  have titles: "\<forall>t\<in>set (ts[i := t']). trim (title t) = title t"
    using inv trimmed members by (auto simp: storeInvariant_def)
  have other: "\<not> sameTitle b t' \<and> \<not> sameTitle t' b"
    if b: "b \<in> set ts" and differ: "task_id b \<noteq> task_id t'" for b
  proof (cases "title t' = title (ts ! i)")
    case True
    have "\<not> sameTitle b (ts ! i) \<and> \<not> sameTitle (ts ! i) b"
      using inv b old differ same_id
      by (simp add: storeInvariant_def noEqualTitles_def)
    then show ?thesis
      using True same_owner by (simp add: sameTitle_def)
  next
    case False
    with check b differ same_id same_owner
    have "ownerId b = ownerId t' \<longrightarrow>
        \<not> includesStr (toLowerCase (title b)) (toLowerCase (title t'))"
      by simp
    moreover have "trim (title b) = title b"
      using inv b by (simp add: storeInvariant_def)
    ultimately show ?thesis
      using sameTitle_trimmed [of b t'] trimmed by simp
  qed
  have "noEqualTitles (ts[i := t'])"
    unfolding noEqualTitles_def
  proof (intro ballI impI)
    fix a b
    assume a: "a \<in> set (ts[i := t'])" and b: "b \<in> set (ts[i := t'])"
      and differ: "task_id a \<noteq> task_id b"
    from a b members have "a = t' \<or> a \<in> set ts" "b = t' \<or> b \<in> set ts"
      by auto
    then show "\<not> sameTitle a b"
      using differ other inv
      by (auto simp: storeInvariant_def noEqualTitles_def)
  qed
  with ids titles show ?thesis
    by (simp add: storeInvariant_def)
qed

lemma newTask_fields:
  "task_id (newTask env dto) = randomUUID env" "ownerId (newTask env dto) = new_ownerId dto"
  "title (newTask env dto) = trim (new_title dto)"
  by (simp_all add: newTask_def)

lemma reachable_storeInvariant:
  "reachable s \<Longrightarrow> storeInvariant (tasks s)"
proof (induction rule: reachable.induct)
  case (empty s)
  then show ?case
    by (simp add: storeInvariant_def noEqualTitles_def)
next
  case (create s env dto)
  from create_tasks [of env dto s] show ?case
  proof
    assume "tasks (snd (TaskService_create env dto s)) = tasks s"
    with create.IH show ?thesis by simp
  next
    assume new: "tasks (snd (TaskService_create env dto s)) = tasks s @ [newTask env dto]
      \<and> (\<forall>t\<in>set (tasks s). ownerId t = new_ownerId dto \<longrightarrow>
            \<not> includesStr (toLowerCase (title t)) (toLowerCase (trim (new_title dto))))"
    have "storeInvariant (tasks s @ [newTask env dto])"
      using create.IH create.hyps(2) new
      by (intro storeInvariant_append) (simp_all add: newTask_fields trim_idem)
    with new show ?thesis by simp
  qed
next
  case (update s env ident udto)
  from update_tasks [of env ident udto s] show ?case
  proof
    assume "tasks (snd (TaskService_update env ident udto s)) = tasks s"
    with update.IH show ?thesis by simp
  next
    assume "\<exists>i. i < length (tasks s) \<and> task_id (tasks s ! i) = ident
        \<and> tasks (snd (TaskService_update env ident udto s)) =
            (tasks s)[i := spread (tasks s ! i) (updateData udto)]
        \<and> (\<forall>t. upd_title udto = Some t \<longrightarrow>
              (\<forall>b\<in>set (tasks s). ownerId b = ownerId (tasks s ! i) \<and> task_id b \<noteq> ident \<longrightarrow>
                 \<not> includesStr (toLowerCase (title b)) (toLowerCase (trim t))))"
    then obtain i where i: "i < length (tasks s)" and ident: "task_id (tasks s ! i) = ident"
      and upd: "tasks (snd (TaskService_update env ident udto s)) =
            (tasks s)[i := spread (tasks s ! i) (updateData udto)]"
      and check: "\<forall>t. upd_title udto = Some t \<longrightarrow>
              (\<forall>b\<in>set (tasks s). ownerId b = ownerId (tasks s ! i) \<and> task_id b \<noteq> ident \<longrightarrow>
                 \<not> includesStr (toLowerCase (title b)) (toLowerCase (trim t)))"
      by blast
    have old: "trim (title (tasks s ! i)) = title (tasks s ! i)"
      using update.IH i by (simp add: storeInvariant_def)
    have "storeInvariant ((tasks s)[i := spread (tasks s ! i) (updateData udto)])"
      using update.IH i
    proof (rule storeInvariant_update)
      show "trim (title (spread (tasks s ! i) (updateData udto))) =
          title (spread (tasks s ! i) (updateData udto))"
        using old by (simp add: spread_fields trim_idem split: option.splits)
      show "title (spread (tasks s ! i) (updateData udto)) = title (tasks s ! i) \<or>
        (\<forall>b\<in>set (tasks s). ownerId b = ownerId (tasks s ! i)
            \<and> task_id b \<noteq> task_id (tasks s ! i) \<longrightarrow>
           \<not> includesStr (toLowerCase (title b))
               (toLowerCase (title (spread (tasks s ! i) (updateData udto)))))"
        using check ident by (cases "upd_title udto") (simp_all add: spread_fields)
    qed (simp_all add: spread_fields)
    with upd show ?thesis by simp
  qed
next
  case (delete s ident)
  then show ?case by (simp add: delete_tasks storeInvariant_filter)
next
  case (deleteByOwner s owner)
  then show ?case
    using deleteByOwner_tasks [of owner s] by (auto simp: storeInvariant_filter)
next
  case (deleteMultiple s ids)
  then show ?case
    using deleteMultiple_tasks [of ids s] by (auto simp: storeInvariant_filter)
next
  case (getById s nowGet nowSet ident)
  then show ?case by (simp add: getById_tasks)
next
  case (saveUser s user)
  then show ?case by (simp add: UserRepository_save_def Logger_defs Let_def)
qed

text \<open>
  Claim C3, as the code has it. In every state reached from an empty task store by
  \<open>create\<close>, \<open>update\<close>, \<open>delete\<close>, \<open>deleteByOwner\<close> and \<open>deleteMultiple\<close> (and by
  \<open>getById\<close> and the saving of users), with fresh ids from \<open>randomUUID\<close>, the ids of
  the stored tasks are distinct and no two tasks of one owner have trimmed titles that
  are equal, case ignored. The duplicate check only asks whether a stored title includes
  the new one, so a title that includes a stored title is let in.
\<close>

theorem reachable_no_equal_titles:
  assumes "reachable s"
  shows "distinct (map task_id (tasks s)) \<and> noEqualTitles (tasks s)"
  using reachable_storeInvariant [OF assms] by (simp add: storeInvariant_def)

lemma twoReports_tasks:
  "tasks (snd (TaskService_create exampleEnv (exampleDTO\<lparr>new_title := ''report''\<rparr>)
      exampleState)) = [exampleTask\<lparr>title := ''report''\<rparr>]"
  "tasks twoReports =
     [exampleTask\<lparr>title := ''report''\<rparr>, exampleTask\<lparr>task_id := ''id2''\<rparr>]"
  unfolding twoReports_def by code_simp+

lemma twoReports_reachable: "reachable twoReports"
  unfolding twoReports_def
proof (rule reachable.create)
  show "reachable (snd (TaskService_create exampleEnv (exampleDTO\<lparr>new_title := ''report''\<rparr>)
      exampleState))"
    by (rule reachable.create) (simp_all add: reachable.empty exampleState_def)
  show "randomUUID (exampleEnv\<lparr>randomUUID := ''id2''\<rparr>) \<notin>
      task_id ` set (tasks (snd (TaskService_create exampleEnv
        (exampleDTO\<lparr>new_title := ''report''\<rparr>) exampleState)))"
    by (simp add: twoReports_tasks(1) exampleTask_def)
qed

theorem reachable_no_equal_titles_witness:
  "reachable twoReports
   \<and> distinct (map task_id (tasks twoReports)) \<and> noEqualTitles (tasks twoReports)"
  using twoReports_reachable reachable_no_equal_titles [OF twoReports_reachable] by simp

text \<open>
  Claim C3 as stated fails: after a \<open>create\<close> of "report" and a \<open>create\<close> of
  "Write report" for the same owner, both of which succeed, the store holds two tasks
  of one owner of which the first title occurs in the second.
\<close>

theorem overlapping_titles_counterexample:
  "reachable twoReports \<and> \<not> noOverlappingTitles (tasks twoReports)"
proof -
  let ?a = "exampleTask\<lparr>title := ''report''\<rparr>"
  let ?b = "exampleTask\<lparr>task_id := ''id2''\<rparr>"
  have "titlesOverlap ?a ?b"
    by (simp add: titlesOverlap_def exampleTask_def trim_def isWhiteSpace_def
        toLowerCase_def toLowerCaseChar_def)
  moreover have "?a \<noteq> ?b"
    by (simp add: exampleTask_def)
  ultimately have "\<not> noOverlappingTitles [?a, ?b]"
    unfolding noOverlappingTitles_def by (metis list.set_intros(1) list.set_intros(2))
  then show ?thesis
    using twoReports_reachable by (simp add: twoReports_tasks(2))
qed

end
